theory Spec2Isabelle
  imports Main "HOL-Library.Sublist"
begin

section \<open>Strings\<close>

text \<open>
  JavaScript strings are modelled as \<^typ>\<open>string\<close>. The models of \<open>toLowerCase\<close> and
  \<open>trim\<close> cover the ASCII range, which is what the rule table, the ordinal words and
  the phrase patterns of the program are written in.
\<close>

definition upperAlphabet :: string where
  "upperAlphabet = ''ABCDEFGHIJKLMNOPQRSTUVWXYZ''"

definition lowerAlphabet :: string where
  "lowerAlphabet = ''abcdefghijklmnopqrstuvwxyz''"

definition lowerChar :: "char \<Rightarrow> char" where
  "lowerChar c = (case map_of (zip upperAlphabet lowerAlphabet) c of Some d \<Rightarrow> d | None \<Rightarrow> c)"

definition toLowerCase :: "string \<Rightarrow> string" where
  "toLowerCase s = map lowerChar s"

text \<open>\<open>String.prototype.trim\<close>: white space is removed at both ends.\<close>

definition isWhitespace :: "char \<Rightarrow> bool" where
  "isWhitespace c = (c \<in> set [CHR 0x09, CHR 0x0A, CHR 0x0B, CHR 0x0C, CHR 0x0D, CHR 0x20])"

definition trim :: "string \<Rightarrow> string" where
  "trim s = rev (dropWhile isWhitespace (rev (dropWhile isWhitespace s)))"

text \<open>\<open>s.includes(sub)\<close>: \<open>sub\<close> occurs in \<open>s\<close> as a contiguous substring.\<close>

fun str_includes :: "string \<Rightarrow> string \<Rightarrow> bool" where
  "str_includes [] sub = (sub = [])"
| "str_includes (c # cs) sub = (prefix sub (c # cs) \<or> str_includes cs sub)"

subsection \<open>Regular expressions of the form \<open>\b(p1|...|pn)\b\<close>\<close>

text \<open>
  An alternative is a sequence of literal characters and wildcards (the dot, which
  matches any character but a line terminator). \<open>\w\<close> is a letter, a digit or the
  underscore. \<open>\b\<close> holds at a position when exactly one of the characters before and
  after it is a word character; the start and the end of the string count as non-word.
  \<open>boundary prevWord rest\<close> is \<open>\b\<close> at the position whose preceding character has
  word-ness \<open>prevWord\<close> and whose remaining input is \<open>rest\<close>.
\<close>

datatype pchar = Lit char | AnyChar

definition lits :: "string \<Rightarrow> pchar list" where
  "lits s = map Lit s"

definition isLineTerminator :: "char \<Rightarrow> bool" where
  "isLineTerminator c = (c \<in> set [CHR 0x0A, CHR 0x0D])"

fun patMatches :: "pchar list \<Rightarrow> string \<Rightarrow> bool" where
  "patMatches [] s = True"
| "patMatches (p # ps) [] = False"
| "patMatches (Lit c # ps) (d # ds) = (c = d \<and> patMatches ps ds)"
| "patMatches (AnyChar # ps) (d # ds) = (\<not> isLineTerminator d \<and> patMatches ps ds)"

definition isDigit :: "char \<Rightarrow> bool" where
  "isDigit c = (c \<in> set ''0123456789'')"

definition isWordChar :: "char \<Rightarrow> bool" where
  "isWordChar c = (c \<in> set (upperAlphabet @ lowerAlphabet @ ''0123456789_''))"

definition boundary :: "bool \<Rightarrow> string \<Rightarrow> bool" where
  "boundary prevWord rest =
     (prevWord \<noteq> (case rest of [] \<Rightarrow> False | c # cs \<Rightarrow> isWordChar c))"

definition matchAltAt :: "bool \<Rightarrow> string \<Rightarrow> pchar list \<Rightarrow> bool" where
  "matchAltAt prevWord rest p =
     (patMatches p rest \<and> boundary prevWord rest
      \<and> boundary (if p = [] then prevWord else isWordChar (last (take (length p) rest)))
                  (drop (length p) rest))"

text \<open>
  \<open>regexWordsFrom alts prevWord s\<close>: the pattern \<open>\b(p1|...|pn)\b\<close> matches somewhere
  in \<open>s\<close>, the character prevWord \<open>s\<close> having word-ness \<open>prevWord\<close>. \<open>regexWords\<close> is
  \<open>RegExp.prototype.test\<close> for that pattern.
\<close>

fun regexWordsFrom :: "pchar list list \<Rightarrow> bool \<Rightarrow> string \<Rightarrow> bool" where
  "regexWordsFrom alts prevWord [] = (\<exists>p \<in> set alts. matchAltAt prevWord [] p)"
| "regexWordsFrom alts prevWord (c # cs) =
     ((\<exists>p \<in> set alts. matchAltAt prevWord (c # cs) p)
      \<or> regexWordsFrom alts (isWordChar c) cs)"

definition regexWords :: "pchar list list \<Rightarrow> string \<Rightarrow> bool" where
  "regexWords alts s = regexWordsFrom alts False s"

section \<open>Command policy (src/services/commandPolicy.ts)\<close>

datatype CommandApprovalLevel = Auto | ApprovalRequired | Blocked

datatype CommandCategory = Context | Critical | Forbidden

record CommandPolicyDecision =
  level :: CommandApprovalLevel
  reason :: string
  category :: CommandCategory
  suggestedConfirmation :: "string option"
  decision_notes :: "string option"

record CommandRule =
  rule_command :: string
  argsPrefix :: "string list option"
  rule_level :: CommandApprovalLevel
  rule_category :: CommandCategory
  rule_reason :: string
  rule_notes :: "string option"

definition contextOnlyRules :: "CommandRule list" where
  "contextOnlyRules =
    [
     \<lparr>rule_command = ''docker'', argsPrefix = Some [''ps''],
      rule_level = Auto, rule_category = Context,
      rule_reason = ''Lists container status without changing state.'',
      rule_notes = None\<rparr>,
     \<lparr>rule_command = ''docker'', argsPrefix = Some [''ps'', ''-a''],
      rule_level = Auto, rule_category = Context,
      rule_reason = ''Displays all containers without modifying anything.'',
      rule_notes = None\<rparr>,
     \<lparr>rule_command = ''docker'', argsPrefix = Some [''logs''],
      rule_level = Auto, rule_category = Context,
      rule_reason = ''Returns container logs for debugging purposes only.'',
      rule_notes = None\<rparr>,
     \<lparr>rule_command = ''docker'', argsPrefix = Some [''stats''],
      rule_level = Auto, rule_category = Context,
      rule_reason = ''Shows resource usage without mutating containers.'',
      rule_notes = None\<rparr>,
     \<lparr>rule_command = ''docker'', argsPrefix = Some [''inspect''],
      rule_level = Auto, rule_category = Context,
      rule_reason = ''Reads container or image metadata without any side effects.'',
      rule_notes = None\<rparr>,
     \<lparr>rule_command = ''git'', argsPrefix = Some [''status''],
      rule_level = Auto, rule_category = Context,
      rule_reason = ''Shows repository state without modifying files.'',
      rule_notes = None\<rparr>,
     \<lparr>rule_command = ''git'', argsPrefix = Some [''branch''],
      rule_level = Auto, rule_category = Context,
      rule_reason = ''Lists branches without switching or editing.'',
      rule_notes = None\<rparr>,
     \<lparr>rule_command = ''git'', argsPrefix = Some [''log''],
      rule_level = Auto, rule_category = Context,
      rule_reason = ''Reads commit history only.'',
      rule_notes = None\<rparr>,
     \<lparr>rule_command = ''git'', argsPrefix = Some [''show''],
      rule_level = Auto, rule_category = Context,
      rule_reason = ''Displays commit details without altering the repo.'',
      rule_notes = None\<rparr>,
     \<lparr>rule_command = ''git'', argsPrefix = Some [''config'', ''--list''],
      rule_level = Auto, rule_category = Context,
      rule_reason = ''Displays configuration without making changes.'',
      rule_notes = None\<rparr>,
     \<lparr>rule_command = ''kubectl'', argsPrefix = Some [''get''],
      rule_level = Auto, rule_category = Context,
      rule_reason = ''Fetches cluster resource information.'',
      rule_notes = None\<rparr>,
     \<lparr>rule_command = ''kubectl'', argsPrefix = Some [''describe''],
      rule_level = Auto, rule_category = Context,
      rule_reason = ''Reads detailed resource information only.'',
      rule_notes = None\<rparr>,
     \<lparr>rule_command = ''npm'', argsPrefix = Some [''ls''],
      rule_level = Auto, rule_category = Context,
      rule_reason = ''Shows dependency tree without installation.'',
      rule_notes = None\<rparr>,
     \<lparr>rule_command = ''npm'', argsPrefix = Some [''run'', ''lint''],
      rule_level = ApprovalRequired, rule_category = Critical,
      rule_reason = ''Runs project scripts that may be long running or mutate cache.'',
      rule_notes = None\<rparr>,
     \<lparr>rule_command = ''node'', argsPrefix = Some [''--version''],
      rule_level = Auto, rule_category = Context,
      rule_reason = ''Reports installed Node.js version.'',
      rule_notes = None\<rparr>,
     \<lparr>rule_command = ''python'', argsPrefix = Some [''--version''],
      rule_level = Auto, rule_category = Context,
      rule_reason = ''Reports installed Python version.'',
      rule_notes = None\<rparr>,
     \<lparr>rule_command = ''pwsh'', argsPrefix = Some [''-Command'', ''Get-Process''],
      rule_level = Auto, rule_category = Context,
      rule_reason = ''Lists running processes only.'',
      rule_notes = None\<rparr>,
     \<lparr>rule_command = ''powershell'', argsPrefix = Some [''-Command'', ''Get-Process''],
      rule_level = Auto, rule_category = Context,
      rule_reason = ''Lists running processes only.'',
      rule_notes = None\<rparr>,
     \<lparr>rule_command = ''cmd'', argsPrefix = Some [''/c'', ''tasklist''],
      rule_level = Auto, rule_category = Context,
      rule_reason = ''Shows task list without side effects.'',
      rule_notes = None\<rparr>,
     \<lparr>rule_command = ''wmic'', argsPrefix = Some [''process'', ''list'', ''brief''],
      rule_level = Auto, rule_category = Context,
      rule_reason = ''Displays process data for diagnostics.'',
      rule_notes = None\<rparr>,
     \<lparr>rule_command = ''systeminfo'', argsPrefix = None,
      rule_level = Auto, rule_category = Context,
      rule_reason = ''Displays system configuration information.'',
      rule_notes = None\<rparr>,
     \<lparr>rule_command = ''whoami'', argsPrefix = None,
      rule_level = Auto, rule_category = Context,
      rule_reason = ''Shows current user identity only.'',
      rule_notes = None\<rparr>,
     \<lparr>rule_command = ''hostname'', argsPrefix = None,
      rule_level = Auto, rule_category = Context,
      rule_reason = ''Displays machine hostname only.'',
      rule_notes = None\<rparr>,
     \<lparr>rule_command = ''ls'', argsPrefix = None,
      rule_level = Auto, rule_category = Context,
      rule_reason = ''Lists directory contents.'',
      rule_notes = None\<rparr>,
     \<lparr>rule_command = ''dir'', argsPrefix = None,
      rule_level = Auto, rule_category = Context,
      rule_reason = ''Lists directory contents.'',
      rule_notes = None\<rparr>
    ]"

definition criticalRules :: "CommandRule list" where
  "criticalRules =
    [
     \<lparr>rule_command = ''docker'', argsPrefix = Some [''start''],
      rule_level = ApprovalRequired, rule_category = Critical,
      rule_reason = ''Starts containers and changes runtime state.'',
      rule_notes = None\<rparr>,
     \<lparr>rule_command = ''docker'', argsPrefix = Some [''stop''],
      rule_level = ApprovalRequired, rule_category = Critical,
      rule_reason = ''Stops containers impacting running services.'',
      rule_notes = None\<rparr>,
     \<lparr>rule_command = ''docker'', argsPrefix = Some [''restart''],
      rule_level = ApprovalRequired, rule_category = Critical,
      rule_reason = ''Restarts containers and can interrupt workloads.'',
      rule_notes = None\<rparr>,
     \<lparr>rule_command = ''docker'', argsPrefix = Some [''rm''],
      rule_level = Blocked, rule_category = Forbidden,
      rule_reason = ''Removes containers and risks data loss.'',
      rule_notes = None\<rparr>,
     \<lparr>rule_command = ''docker'', argsPrefix = Some [''compose'', ''down''],
      rule_level = Blocked, rule_category = Forbidden,
      rule_reason = ''docker compose down removes services and should never run automatically.'',
      rule_notes = None\<rparr>,
     \<lparr>rule_command = ''docker'', argsPrefix = Some [''compose'', ''up''],
      rule_level = ApprovalRequired, rule_category = Critical,
      rule_reason = ''Creates or modifies containers and volumes.'',
      rule_notes = None\<rparr>,
     \<lparr>rule_command = ''docker'', argsPrefix = Some [''compose'', ''rm''],
      rule_level = Blocked, rule_category = Forbidden,
      rule_reason = ''Removes services and volumes.'',
      rule_notes = None\<rparr>,
     \<lparr>rule_command = ''git'', argsPrefix = Some [''reset''],
      rule_level = ApprovalRequired, rule_category = Critical,
      rule_reason = ''Potentially discards commits or changes.'',
      rule_notes = None\<rparr>,
     \<lparr>rule_command = ''git'', argsPrefix = Some [''clean''],
      rule_level = ApprovalRequired, rule_category = Critical,
      rule_reason = ''Deletes untracked files from the working tree.'',
      rule_notes = None\<rparr>,
     \<lparr>rule_command = ''git'', argsPrefix = Some [''checkout''],
      rule_level = ApprovalRequired, rule_category = Critical,
      rule_reason = ''Switches branches or overwrites files.'',
      rule_notes = None\<rparr>,
     \<lparr>rule_command = ''git'', argsPrefix = Some [''pull''],
      rule_level = ApprovalRequired, rule_category = Critical,
      rule_reason = ''Mutates local repository state.'',
      rule_notes = None\<rparr>,
     \<lparr>rule_command = ''npm'', argsPrefix = Some [''install''],
      rule_level = ApprovalRequired, rule_category = Critical,
      rule_reason = ''Modifies node_modules and lockfiles.'',
      rule_notes = None\<rparr>,
     \<lparr>rule_command = ''npm'', argsPrefix = Some [''update''],
      rule_level = ApprovalRequired, rule_category = Critical,
      rule_reason = ''Upgrades dependencies and may break builds.'',
      rule_notes = None\<rparr>,
     \<lparr>rule_command = ''npm'', argsPrefix = Some [''run''],
      rule_level = ApprovalRequired, rule_category = Critical,
      rule_reason = ''Runs arbitrary project scripts.'',
      rule_notes = None\<rparr>,
     \<lparr>rule_command = ''pip'', argsPrefix = Some [''install''],
      rule_level = ApprovalRequired, rule_category = Critical,
      rule_reason = ''Installs Python packages and alters environment.'',
      rule_notes = None\<rparr>,
     \<lparr>rule_command = ''apt'', argsPrefix = None,
      rule_level = ApprovalRequired, rule_category = Critical,
      rule_reason = ''Installs or removes system packages.'',
      rule_notes = None\<rparr>,
     \<lparr>rule_command = ''brew'', argsPrefix = None,
      rule_level = ApprovalRequired, rule_category = Critical,
      rule_reason = ''Installs or removes packages on macOS.'',
      rule_notes = None\<rparr>,
     \<lparr>rule_command = ''kubectl'', argsPrefix = None,
      rule_level = ApprovalRequired, rule_category = Critical,
      rule_reason = ''Cluster operations can impact production workloads.'',
      rule_notes = None\<rparr>,
     \<lparr>rule_command = ''taskkill'', argsPrefix = None,
      rule_level = ApprovalRequired, rule_category = Critical,
      rule_reason = ''Terminates running processes.'',
      rule_notes = None\<rparr>
    ]"

definition forbiddenCommands :: "CommandRule list" where
  "forbiddenCommands =
    [
     \<lparr>rule_command = ''rm'', argsPrefix = None,
      rule_level = Blocked, rule_category = Forbidden,
      rule_reason = ''Deleting files is never performed automatically.'',
      rule_notes = None\<rparr>,
     \<lparr>rule_command = ''rd'', argsPrefix = None,
      rule_level = Blocked, rule_category = Forbidden,
      rule_reason = ''Removing directories is not permitted.'',
      rule_notes = None\<rparr>,
     \<lparr>rule_command = ''del'', argsPrefix = None,
      rule_level = Blocked, rule_category = Forbidden,
      rule_reason = ''Deleting files is not permitted.'',
      rule_notes = None\<rparr>,
     \<lparr>rule_command = ''erase'', argsPrefix = None,
      rule_level = Blocked, rule_category = Forbidden,
      rule_reason = ''Deleting data is not permitted.'',
      rule_notes = None\<rparr>,
     \<lparr>rule_command = ''format'', argsPrefix = None,
      rule_level = Blocked, rule_category = Forbidden,
      rule_reason = ''Formatting drives is destructive and disallowed.'',
      rule_notes = None\<rparr>,
     \<lparr>rule_command = ''shutdown'', argsPrefix = None,
      rule_level = Blocked, rule_category = Forbidden,
      rule_reason = ''System power operations require manual execution by the user.'',
      rule_notes = None\<rparr>,
     \<lparr>rule_command = ''reboot'', argsPrefix = None,
      rule_level = Blocked, rule_category = Forbidden,
      rule_reason = ''System reboot requires explicit manual action.'',
      rule_notes = None\<rparr>,
     \<lparr>rule_command = ''poweroff'', argsPrefix = None,
      rule_level = Blocked, rule_category = Forbidden,
      rule_reason = ''Powering off the machine is never automated.'',
      rule_notes = None\<rparr>,
     \<lparr>rule_command = ''mkfs'', argsPrefix = None,
      rule_level = Blocked, rule_category = Forbidden,
      rule_reason = ''Creating filesystems is destructive.'',
      rule_notes = None\<rparr>,
     \<lparr>rule_command = ''diskpart'', argsPrefix = None,
      rule_level = Blocked, rule_category = Forbidden,
      rule_reason = ''Disk partition changes are disallowed.'',
      rule_notes = None\<rparr>
    ]"

definition allRules :: "CommandRule list" where
  "allRules = forbiddenCommands @ criticalRules @ contextOnlyRules"

text \<open>The \<open>for\<close> loop of \<open>matchesRule\<close>: position by position, stop at the first difference.\<close>

fun argsPrefixLoop :: "string list \<Rightarrow> string list \<Rightarrow> bool" where
  "argsPrefixLoop [] args = True"
| "argsPrefixLoop (p # ps) [] = False"
| "argsPrefixLoop (p # ps) (a # args) = (if p \<noteq> a then False else argsPrefixLoop ps args)"

definition matchesRule :: "CommandRule \<Rightarrow> string \<Rightarrow> string list \<Rightarrow> bool" where
  "matchesRule rule command args =
     (if rule_command rule \<noteq> command then False
      else case argsPrefix rule of
             None \<Rightarrow> True
           | Some pre \<Rightarrow>
               if length pre = 0 then True
               else if length pre > length args then False
               else argsPrefixLoop pre args)"

definition buildDecision :: "CommandRule \<Rightarrow> CommandPolicyDecision" where
  "buildDecision rule =
     \<lparr>level = rule_level rule,
      reason = rule_reason rule,
      category = rule_category rule,
      suggestedConfirmation =
        (if rule_level rule = ApprovalRequired
         then Some ''Explain why this command is needed and wait for the user to approve prevWord running it.''
         else None),
      decision_notes = rule_notes rule\<rparr>"

definition defaultDecision :: "string \<Rightarrow> CommandPolicyDecision" where
  "defaultDecision command =
     \<lparr>level = ApprovalRequired,
      reason = ''No explicit policy found for '' @ [CHR 0x27] @ command @ [CHR 0x27]
                 @ ''. Defaulting to user approval.'',
      category = Critical,
      suggestedConfirmation =
        Some ''Describe what this command will do and ask the user to approve it prevWord execution.'',
      decision_notes = None\<rparr>"

definition evaluateCommandPolicy :: "string \<Rightarrow> string list \<Rightarrow> CommandPolicyDecision" where
  "evaluateCommandPolicy command args =
     (let normalizedCommand = toLowerCase command;
          normalizedArgs = map toLowerCase args
      in case find (\<lambda>rule. matchesRule rule normalizedCommand normalizedArgs) allRules of
           Some matchedRule \<Rightarrow> buildDecision matchedRule
         | None \<Rightarrow> defaultDecision normalizedCommand)"

definition isContextOnlyCommand :: "string \<Rightarrow> string list \<Rightarrow> bool" where
  "isContextOnlyCommand command args = (level (evaluateCommandPolicy command args) = Auto)"

subsection \<open>Properties of the classifier\<close>

lemma find_allRules_None:
  "\<not> (\<exists>rule \<in> set allRules. matchesRule rule c as)
   \<Longrightarrow> find (\<lambda>rule. matchesRule rule c as) allRules = None"
  by (simp add: find_None_iff)

text \<open>
  C2. When no rule of the ordered table \<open>allRules\<close> matches the normalised command and
  arguments, \<open>evaluateCommandPolicy\<close> returns \<open>defaultDecision\<close> of the normalised command:
  level \<open>approval_required\<close>, category \<open>critical\<close>, the reason
  "No explicit policy found for '<command>'. Defaulting to user approval.", and in
  particular a level that is not \<open>auto\<close>.
\<close>

theorem evaluateCommandPolicy_default:
  assumes "\<not> (\<exists>rule \<in> set allRules.
              matchesRule rule (toLowerCase command) (map toLowerCase args))"
  shows "evaluateCommandPolicy command args = defaultDecision (toLowerCase command)
       \<and> level (evaluateCommandPolicy command args) = ApprovalRequired
       \<and> category (evaluateCommandPolicy command args) = Critical
       \<and> reason (evaluateCommandPolicy command args) =
           ''No explicit policy found for '' @ [CHR 0x27] @ toLowerCase command @ [CHR 0x27]
             @ ''. Defaulting to user approval.''
       \<and> level (evaluateCommandPolicy command args) \<noteq> Auto"
proof -
  have none: "find (\<lambda>rule. matchesRule rule (toLowerCase command) (map toLowerCase args)) allRules
                = None"
    using assms by (rule find_allRules_None)
  have eq: "evaluateCommandPolicy command args = defaultDecision (toLowerCase command)"
    by (simp add: evaluateCommandPolicy_def Let_def none)
  show ?thesis
    by (simp add: eq defaultDecision_def)
qed

theorem evaluateCommandPolicy_default_witness:
  "\<not> (\<exists>rule \<in> set allRules.
          matchesRule rule (toLowerCase ''Flibbertigibbet'') (map toLowerCase [''--Now'']))
   \<and> evaluateCommandPolicy ''Flibbertigibbet'' [''--Now''] = defaultDecision ''flibbertigibbet''
   \<and> level (evaluateCommandPolicy ''Flibbertigibbet'' [''--Now'']) = ApprovalRequired
   \<and> category (evaluateCommandPolicy ''Flibbertigibbet'' [''--Now'']) = Critical"
proof -
  have h: "\<not> (\<exists>rule \<in> set allRules.
              matchesRule rule (toLowerCase ''Flibbertigibbet'') (map toLowerCase [''--Now'']))"
    by code_simp
  have l: "toLowerCase ''Flibbertigibbet'' = ''flibbertigibbet''"
    by code_simp
  note r = evaluateCommandPolicy_default [OF h, unfolded l]
  show ?thesis
    using h r by (elim conjE, intro conjI) assumption+
qed

text \<open>
  C3. The four scenario results of the classifier: \<open>docker ps\<close> is auto/context,
  \<open>docker rm x\<close> is blocked/forbidden, \<open>git reset --hard\<close> is
  approval_required/critical, and the unknown command \<open>flibbertigibbet\<close> with no
  arguments gets the default decision, approval_required/critical.
\<close>

theorem evaluateCommandPolicy_scenarios:
  "level (evaluateCommandPolicy ''docker'' [''ps'']) = Auto
   \<and> category (evaluateCommandPolicy ''docker'' [''ps'']) = Context
   \<and> level (evaluateCommandPolicy ''docker'' [''rm'', ''x'']) = Blocked
   \<and> category (evaluateCommandPolicy ''docker'' [''rm'', ''x'']) = Forbidden
   \<and> level (evaluateCommandPolicy ''git'' [''reset'', ''--hard'']) = ApprovalRequired
   \<and> category (evaluateCommandPolicy ''git'' [''reset'', ''--hard'']) = Critical
   \<and> evaluateCommandPolicy ''flibbertigibbet'' [] = defaultDecision ''flibbertigibbet''
   \<and> level (evaluateCommandPolicy ''flibbertigibbet'' []) = ApprovalRequired
   \<and> category (evaluateCommandPolicy ''flibbertigibbet'' []) = Critical"
  by code_simp

section \<open>JavaScript values\<close>

text \<open>
  Tool-call arguments and streamed response chunks are untyped JavaScript values. A
  callable is represented by what calling it without arguments does: it returns a
  value, or it throws (\<open>None\<close>). An object is its list of own enumerable entries, in the
  order \<open>Object.entries\<close> yields them.
\<close>

datatype jsval =
    JUndefined
  | JNull
  | JBool bool
  | JNum int
  | JStr string
  | JFun "jsval option"
  | JArr "jsval list"
  | JObj "(string \<times> jsval) list"

datatype jstype = TUndefined | TObject | TBoolean | TNumber | TString | TFunction

fun typeof :: "jsval \<Rightarrow> jstype" where
  "typeof JUndefined = TUndefined"
| "typeof JNull = TObject"
| "typeof (JBool b) = TBoolean"
| "typeof (JNum n) = TNumber"
| "typeof (JStr s) = TString"
| "typeof (JFun r) = TFunction"
| "typeof (JArr xs) = TObject"
| "typeof (JObj kvs) = TObject"

fun truthy :: "jsval \<Rightarrow> bool" where
  "truthy JUndefined = False"
| "truthy JNull = False"
| "truthy (JBool b) = b"
| "truthy (JNum n) = (n \<noteq> 0)"
| "truthy (JStr s) = (s \<noteq> [])"
| "truthy (JFun r) = True"
| "truthy (JArr xs) = True"
| "truthy (JObj kvs) = True"

text \<open>Reading the property \<open>k\<close>: \<open>undefined\<close> when the value has no such own entry.\<close>

fun js_get :: "jsval \<Rightarrow> string \<Rightarrow> jsval" where
  "js_get (JObj kvs) k = (case map_of kvs k of Some v \<Rightarrow> v | None \<Rightarrow> JUndefined)"
| "js_get v k = JUndefined"

fun isArray :: "jsval \<Rightarrow> bool" where
  "isArray (JArr xs) = True"
| "isArray v = False"

fun arrayItems :: "jsval \<Rightarrow> jsval list" where
  "arrayItems (JArr xs) = xs"
| "arrayItems v = []"

fun js_string :: "jsval \<Rightarrow> string option" where
  "js_string (JStr s) = Some s"
| "js_string v = None"


section \<open>The execute_command handler (handleFunctionCall in src/services/gemini.ts)\<close>

record CommandResult =
  cr_success :: bool
  cr_stdout :: string
  cr_stderr :: string
  cr_exit_code :: "int option"
  cr_error :: "string option"

text \<open>
  The response object \<open>handleFunctionCall\<close> returns, with the keys the orchestrator
  reads. A key the handler does not set is \<open>None\<close> (\<open>False\<close> for the two flags);
  \<open>image_base64\<close> is set by a successful window capture only.
\<close>

record ToolResponse =
  success :: bool
  blocked :: bool
  needsApproval :: bool
  stdout :: "string option"
  stderr :: "string option"
  exit_code :: "int option"
  error :: "string option"
  command :: "string option"
  args :: "string list option"
  policy :: "CommandPolicyDecision option"
  request_id :: "string option"
  image_base64 :: "string option"

text \<open>
  The host capability \<open>executeCommand\<close> is an external collaborator: it returns a
  \<open>CommandResult\<close> (\<open>Inr\<close>) or throws an error with an optional message (\<open>Inl\<close>).
  Every invocation is recorded, in order, in the second component of the outcome.
\<close>

type_synonym hostExec = "string \<Rightarrow> string list \<Rightarrow> string option + CommandResult"

definition emptyResponse :: ToolResponse where
  "emptyResponse =
     \<lparr>success = False, blocked = False, needsApproval = False,
      stdout = None, stderr = None, exit_code = None, error = None,
      command = None, args = None, policy = None, request_id = None,
      image_base64 = None\<rparr>"

text \<open>\<open>v || d\<close> on an optional string: the empty string is falsy.\<close>

definition orElse :: "string option \<Rightarrow> string \<Rightarrow> string" where
  "orElse v d = (case v of Some s \<Rightarrow> (if s \<noteq> [] then s else d) | None \<Rightarrow> d)"

text \<open>
  The message of the TypeError that \<open>arg.toLowerCase()\<close> raises inside
  \<open>evaluateCommandPolicy\<close> when an element of the argument array is not a string; the
  outer \<open>catch\<close> of \<open>handleFunctionCall\<close> turns it into a failure response.
\<close>

definition toLowerCaseTypeError :: string where
  "toLowerCaseTypeError = ''arg.toLowerCase is not a function''"

definition handleExecuteCommand ::
  "hostExec \<Rightarrow> string \<Rightarrow> jsval \<Rightarrow> ToolResponse \<times> (string \<times> string list) list" where
  "handleExecuteCommand executeCommand generatedId callArgs =
     (let command = (case js_get callArgs ''command'' of JStr s \<Rightarrow> s | _ \<Rightarrow> []);
          rawArgs = (if isArray (js_get callArgs ''args'')
                     then arrayItems (js_get callArgs ''args'') else [])
      in case those (map js_string rawArgs) of
           None \<Rightarrow>
             (emptyResponse\<lparr>success := False, error := Some toLowerCaseTypeError\<rparr>, [])
         | Some commandArgs \<Rightarrow>
             (let policyDecision = evaluateCommandPolicy command commandArgs in
              if level policyDecision = Blocked then
                (emptyResponse\<lparr>success := False, blocked := True,
                   command := Some command, args := Some commandArgs,
                   policy := Some policyDecision, error := Some (reason policyDecision),
                   request_id := Some generatedId\<rparr>, [])
              else if level policyDecision = ApprovalRequired then
                (emptyResponse\<lparr>success := False, needsApproval := True,
                   command := Some command, args := Some commandArgs,
                   policy := Some policyDecision, error := Some (reason policyDecision),
                   request_id := Some generatedId\<rparr>, [])
              else
                (case executeCommand command commandArgs of
                   Inr cmdResult \<Rightarrow>
                     (emptyResponse\<lparr>success := cr_success cmdResult,
                        stdout := Some (cr_stdout cmdResult),
                        stderr := Some (cr_stderr cmdResult),
                        exit_code := cr_exit_code cmdResult,
                        error := (case cr_error cmdResult of
                                    Some e \<Rightarrow> (if e \<noteq> [] then Some e else None)
                                  | None \<Rightarrow> None),
                        command := Some command, args := Some commandArgs,
                        policy := Some policyDecision\<rparr>,
                      [(command, commandArgs)])
                 | Inl message \<Rightarrow>
                     (emptyResponse\<lparr>success := False,
                        stdout := Some [], stderr := Some [], exit_code := None,
                        error := Some (orElse message ''Command execution failed''),
                        command := Some command, args := Some commandArgs,
                        policy := Some policyDecision\<rparr>,
                      [(command, commandArgs)]))))"

section \<open>Pending command requests\<close>

datatype RequestStatus = Pending | Executing | Executed | Denied | BlockedStatus

record PendingCommandRequest =
  req_id :: string
  req_command :: string
  req_args :: "string list"
  req_policy :: CommandPolicyDecision
  createdAt :: nat
  status :: RequestStatus
  result :: "CommandResult option"
  req_error :: "string option"

subsection \<open>Creation by the orchestrator (sendMessageWithVision, after handleFunctionCall)\<close>

text \<open>
  \<open>notifyCommandRequest\<close> is the block that follows each \<open>handleFunctionCall\<close>: it
  builds the request handed to the \<open>onCommandRequest\<close> callback, if any, and updates
  the set \<open>notifiedCommandRequests\<close>. \<open>now\<close> is the reading of \<open>Date.now()\<close> and
  \<open>generatedId\<close> the value \<open>generateId("cmd")\<close> would return.
\<close>

definition notifyCommandRequest ::
  "string set \<Rightarrow> nat \<Rightarrow> string \<Rightarrow> ToolResponse
    \<Rightarrow> PendingCommandRequest option \<times> string set" where
  "notifyCommandRequest notifiedCommandRequests now generatedId responseData =
     (if needsApproval responseData then
        (let requestId = orElse (request_id responseData) generatedId in
         if requestId \<in> notifiedCommandRequests then (None, notifiedCommandRequests)
         else
           (Some \<lparr>req_id = requestId,
                  req_command = orElse (command responseData) [],
                  req_args = (case args responseData of Some as \<Rightarrow> as | None \<Rightarrow> []),
                  req_policy =
                    (case policy responseData of
                       Some p \<Rightarrow> p
                     | None \<Rightarrow>
                         \<lparr>level = ApprovalRequired,
                          reason = orElse (error responseData) ''Command requires approval.'',
                          category = Critical,
                          suggestedConfirmation = None, decision_notes = None\<rparr>),
                  createdAt = now,
                  status = Pending,
                  result = None,
                  req_error = None\<rparr>,
            insert requestId notifiedCommandRequests))
      else if blocked responseData then
        (let requestId = orElse (request_id responseData) generatedId in
         if requestId \<in> notifiedCommandRequests then (None, notifiedCommandRequests)
         else
           (Some \<lparr>req_id = requestId,
                  req_command = orElse (command responseData) [],
                  req_args = (case args responseData of Some as \<Rightarrow> as | None \<Rightarrow> []),
                  req_policy =
                    (case policy responseData of
                       Some p \<Rightarrow> p
                     | None \<Rightarrow>
                         \<lparr>level = Blocked,
                          reason = orElse (error responseData) ''Command blocked by safety rules.'',
                          category = Forbidden,
                          suggestedConfirmation = None, decision_notes = None\<rparr>),
                  createdAt = now,
                  status = BlockedStatus,
                  result = None,
                  req_error = error responseData\<rparr>,
            insert requestId notifiedCommandRequests))
      else (None, notifiedCommandRequests))"

subsection \<open>The approval workflow of the \<open>useChat\<close> hook\<close>

text \<open>
  The state is the array \<open>pendingCommands\<close>. \<open>handleCommandRequest\<close> is the
  \<open>onCommandRequest\<close> callback: a request whose id is already present is merged into the
  first entry with that id (\<open>{ ...existing, ...request }\<close>), any other request is
  appended. In the merge the keys of \<open>request\<close> win: \<open>result\<close> is never a key of a
  request built by the orchestrator, and \<open>error\<close> is a key of the blocked ones only.
\<close>

definition mergeRequest ::
  "PendingCommandRequest \<Rightarrow> PendingCommandRequest \<Rightarrow> PendingCommandRequest" where
  "mergeRequest existing request =
     request\<lparr>result := (case result request of Some r \<Rightarrow> Some r | None \<Rightarrow> result existing),
             req_error := (if status request = BlockedStatus then req_error request
                           else (case req_error request of
                                   Some e \<Rightarrow> Some e
                                 | None \<Rightarrow> req_error existing))\<rparr>"

fun mergeFirst ::
  "PendingCommandRequest list \<Rightarrow> PendingCommandRequest \<Rightarrow> PendingCommandRequest list" where
  "mergeFirst [] request = []"
| "mergeFirst (item # items) request =
     (if req_id item = req_id request then mergeRequest item request # items
      else item # mergeFirst items request)"

definition handleCommandRequest ::
  "PendingCommandRequest list \<Rightarrow> PendingCommandRequest \<Rightarrow> PendingCommandRequest list" where
  "handleCommandRequest prev request =
     (if \<exists>item \<in> set prev. req_id item = req_id request
      then mergeFirst prev request
      else prev @ [request])"

text \<open>
  What one call of \<open>approveCommandRequest\<close> or \<open>denyCommandRequest\<close> does: the
  successive values it gives to \<open>pendingCommands\<close>, the invocations of the host's
  \<open>executeCommand\<close>, and the messages handed to \<open>sendMessage\<close>. The conversation turn
  that \<open>sendMessage\<close> starts is a transition of its own.
\<close>

record HookOutcome =
  states :: "PendingCommandRequest list list"
  ran :: "(string \<times> string list) list"
  sent :: "string list"

definition noOutcome :: HookOutcome where
  "noOutcome = \<lparr>states = [], ran = [], sent = []\<rparr>"

definition approveCommandRequest ::
  "hostExec \<Rightarrow> PendingCommandRequest list \<Rightarrow> string \<Rightarrow> HookOutcome" where
  "approveCommandRequest executeCommand pendingCommands requestId =
     (case find (\<lambda>item. req_id item = requestId) pendingCommands of
        None \<Rightarrow> noOutcome
      | Some request \<Rightarrow>
          if status request = Executed \<or> status request = Executing then noOutcome
          else
            (let s1 = map (\<lambda>item. if req_id item = requestId
                                   then item\<lparr>status := Executing, req_error := None\<rparr>
                                   else item) pendingCommands
             in case executeCommand (req_command request) (req_args request) of
                  Inr res \<Rightarrow>
                    (let s2 = map (\<lambda>item. if req_id item = requestId
                                           then item\<lparr>status := Executed,
                                                     result := Some res,
                                                     req_error :=
                                                       (case cr_error res of
                                                          Some e \<Rightarrow> (if e \<noteq> [] then Some e else None)
                                                        | None \<Rightarrow> None)\<rparr>
                                           else item) s1;
                         s3 = filter (\<lambda>item. req_id item \<noteq> requestId) s2
                     in \<lparr>states = [s1, s2, s3],
                         ran = [(req_command request, req_args request)],
                         sent = [''Command executed successfully. What would you like to do next?'']\<rparr>)
                | Inl message \<Rightarrow>
                    (let errorMessage = orElse message ''Command execution failed'';
                         s2 = map (\<lambda>item. if req_id item = requestId
                                           then item\<lparr>status := Executed,
                                                     req_error := Some errorMessage\<rparr>
                                           else item) s1;
                         s3 = filter (\<lambda>item. req_id item \<noteq> requestId) s2
                     in \<lparr>states = [s1, s2, s3],
                         ran = [(req_command request, req_args request)],
                         sent = [''Command execution failed: '' @ errorMessage
                                   @ ''. Please try a different approach.'']\<rparr>)))"

definition denyCommandRequest :: "PendingCommandRequest list \<Rightarrow> string \<Rightarrow> HookOutcome" where
  "denyCommandRequest pendingCommands requestId =
     (case find (\<lambda>item. req_id item = requestId) pendingCommands of
        None \<Rightarrow> noOutcome
      | Some request \<Rightarrow>
          if status request = Executed \<or> status request = Denied then noOutcome
          else
            (let s1 = map (\<lambda>item. if req_id item = requestId
                                   then item\<lparr>status := Denied, req_error := None\<rparr>
                                   else item) pendingCommands;
                 s2 = filter (\<lambda>item. req_id item \<noteq> requestId) s1
             in \<lparr>states = [s1, s2],
                 ran = [],
                 sent = [''Command was denied for safety reasons. Please try a different approach.'']\<rparr>))"

text \<open>
  The operations that change \<open>pendingCommands\<close>: the orchestrator reporting the response
  of a tool call (which may create a request), and the two user actions.
\<close>

datatype HookOp =
    OnCommandRequest "string set" nat string ToolResponse
  | Approve string
  | Deny string

fun applyOp :: "hostExec \<Rightarrow> HookOp \<Rightarrow> PendingCommandRequest list \<Rightarrow> HookOutcome" where
  "applyOp executeCommand (OnCommandRequest notified now generatedId responseData) s =
     (case fst (notifyCommandRequest notified now generatedId responseData) of
        None \<Rightarrow> noOutcome
      | Some request \<Rightarrow> \<lparr>states = [handleCommandRequest s request], ran = [], sent = []\<rparr>)"
| "applyOp executeCommand (Approve requestId) s = approveCommandRequest executeCommand s requestId"
| "applyOp executeCommand (Deny requestId) s = denyCommandRequest s requestId"

subsection \<open>Sample data\<close>

text \<open>A host on which every command succeeds with no output.\<close>

definition okExec :: hostExec where
  "okExec c as =
     Inr \<lparr>cr_success = True, cr_stdout = [], cr_stderr = [],
          cr_exit_code = Some 0, cr_error = None\<rparr>"

text \<open>The tool-call arguments \<open>{ command: "rm", args: ["-rf", "/"] }\<close>.\<close>

definition rmCall :: jsval where
  "rmCall = JObj [(''command'', JStr ''rm''), (''args'', JArr [JStr ''-rf'', JStr ''/''])]"

definition rmRequest :: PendingCommandRequest where
  "rmRequest =
     \<lparr>req_id = ''cmd_1'', req_command = ''rm'', req_args = [''-rf'', ''/''],
      req_policy =
        \<lparr>level = Blocked,
         reason = ''Deleting files is never performed automatically.'',
         category = Forbidden, suggestedConfirmation = None, decision_notes = None\<rparr>,
      createdAt = 0, status = BlockedStatus, result = None,
      req_error = Some ''Deleting files is never performed automatically.''\<rparr>"

definition stopRequest :: PendingCommandRequest where
  "stopRequest =
     \<lparr>req_id = ''cmd_2'', req_command = ''docker'', req_args = [''stop'', ''web''],
      req_policy =
        \<lparr>level = ApprovalRequired,
         reason = ''Stops containers impacting running services.'',
         category = Critical,
         suggestedConfirmation =
           Some ''Explain why this command is needed and wait for the user to approve before running it.'',
         decision_notes = None\<rparr>,
      createdAt = 0, status = Pending, result = None, req_error = None\<rparr>"

definition doneRequest :: PendingCommandRequest where
  "doneRequest =
     stopRequest\<lparr>req_id := ''cmd_3'', status := Executed,
       result := Some \<lparr>cr_success = True, cr_stdout = [], cr_stderr = [],
                       cr_exit_code = Some 0, cr_error = None\<rparr>\<rparr>"

subsection \<open>The forbidden set is classified blocked, and the handler does not run it\<close>

lemma forbidden_commands_blocked:
  assumes "toLowerCase cmd \<in> {''rm'', ''rd'', ''del'', ''erase'', ''format'', ''shutdown'',
                               ''reboot'', ''poweroff'', ''mkfs'', ''diskpart''}"
  shows "level (evaluateCommandPolicy cmd cargs) = Blocked
       \<and> category (evaluateCommandPolicy cmd cargs) = Forbidden"
  using assms
  by (auto simp add: evaluateCommandPolicy_def Let_def allRules_def forbiddenCommands_def
        matchesRule_def buildDecision_def)

lemma docker_forbidden_forms_blocked:
  assumes "toLowerCase cmd = ''docker''"
      and "map toLowerCase cargs = ''rm'' # rest
         \<or> map toLowerCase cargs = ''compose'' # ''down'' # rest
         \<or> map toLowerCase cargs = ''compose'' # ''rm'' # rest"
  shows "level (evaluateCommandPolicy cmd cargs) = Blocked
       \<and> category (evaluateCommandPolicy cmd cargs) = Forbidden"
  using assms
  by (elim disjE)
     (simp_all add: evaluateCommandPolicy_def Let_def allRules_def forbiddenCommands_def
        criticalRules_def matchesRule_def buildDecision_def)

lemma handler_runs_only_auto:
  assumes "(c, as) \<in> set (snd (handleExecuteCommand executeCommand generatedId callArgs))"
  shows "level (evaluateCommandPolicy c as) = Auto"
  using assms
  by (auto simp add: handleExecuteCommand_def Let_def split: option.splits if_splits sum.splits
        intro: CommandApprovalLevel.exhaust)

lemma handler_blocked_response:
  assumes "js_get callArgs ''command'' = JStr c"
      and "js_get callArgs ''args'' = JArr (map JStr as)"
      and "level (evaluateCommandPolicy c as) = Blocked"
  shows "snd (handleExecuteCommand executeCommand generatedId callArgs) = []
       \<and> blocked (fst (handleExecuteCommand executeCommand generatedId callArgs))
       \<and> \<not> success (fst (handleExecuteCommand executeCommand generatedId callArgs))"
proof -
  have "those (map (js_string \<circ> JStr) as) = Some as"
    by (induction as) simp_all
  then show ?thesis
    using assms by (simp add: handleExecuteCommand_def Let_def emptyResponse_def)
qed

text \<open>
  C1. The forbidden set is classified blocked/forbidden and the \<open>execute_command\<close>
  handler returns a blocked failure without invoking the host (the lemmas above), but
  the claim that no approve operation may run a forbidden request fails on the hook:
  the guard of \<open>approveCommandRequest\<close> rejects the statuses executed and executing
  only. For the tool call \<open>rm -rf /\<close> the handler answers blocked and runs nothing, the
  orchestrator creates the request \<open>rmRequest\<close> with status blocked and category
  forbidden, and approving its id moves it to executing and hands \<open>rm -rf /\<close> to the
  host's \<open>executeCommand\<close>.
\<close>

theorem approve_runs_blocked_request:
  "snd (handleExecuteCommand okExec ''cmd_1'' rmCall) = []
   \<and> blocked (fst (handleExecuteCommand okExec ''cmd_1'' rmCall))
   \<and> fst (notifyCommandRequest {} 0 ''cmd_9'' (fst (handleExecuteCommand okExec ''cmd_1'' rmCall)))
       = Some rmRequest
   \<and> handleCommandRequest [] rmRequest = [rmRequest]
   \<and> category (req_policy rmRequest) = Forbidden
   \<and> status rmRequest = BlockedStatus
   \<and> hd (states (approveCommandRequest okExec [rmRequest] ''cmd_1''))
       = [rmRequest\<lparr>status := Executing, req_error := None\<rparr>]
   \<and> ran (approveCommandRequest okExec [rmRequest] ''cmd_1'') = [(''rm'', [''-rf'', ''/''])]"
  by code_simp

subsection \<open>Only Approve leads to executing\<close>

lemma in_mergeFirst:
  "r \<in> set (mergeFirst s request)
   \<Longrightarrow> r \<in> set s \<or> (\<exists>item \<in> set s. r = mergeRequest item request)"
  by (induction s) (auto split: if_splits)

lemma status_mergeRequest: "status (mergeRequest existing request) = status request"
  by (simp add: mergeRequest_def)

lemma notify_status:
  "fst (notifyCommandRequest notified now generatedId responseData) = Some r
   \<Longrightarrow> status r = Pending \<or> status r = BlockedStatus"
  by (auto simp add: notifyCommandRequest_def Let_def split: if_splits)

lemma in_handleCommandRequest:
  assumes "r \<in> set (handleCommandRequest s request)" and "status r \<noteq> status request"
  shows "r \<in> set s"
  using assms
  by (auto simp add: handleCommandRequest_def status_mergeRequest split: if_splits
      dest!: in_mergeFirst)

lemma approve_states:
  assumes "s' \<in> set (states (approveCommandRequest executeCommand s rid))"
      and "r \<in> set s'" and "status r = Executing"
  shows "req_id r = rid \<or> r \<in> set s"
  using assms
  by (auto simp add: approveCommandRequest_def noOutcome_def Let_def
      split: option.splits if_splits sum.splits)

lemma deny_states:
  assumes "s' \<in> set (states (denyCommandRequest s rid))"
      and "r \<in> set s'" and "status r = Executing"
  shows "r \<in> set s"
  using assms
  by (auto simp add: denyCommandRequest_def noOutcome_def Let_def
      split: option.splits if_splits)

lemma create_states:
  assumes "s' \<in> set (states (applyOp executeCommand
                               (OnCommandRequest notified now generatedId responseData) s))"
      and "r \<in> set s'" and "status r = Executing"
  shows "r \<in> set s"
proof (cases "fst (notifyCommandRequest notified now generatedId responseData)")
  case None
  with assms show ?thesis by (simp add: noOutcome_def)
next
  case (Some request)
  then have "status request = Pending \<or> status request = BlockedStatus"
    by (rule notify_status)
  with assms(3) have ne: "status r \<noteq> status request" by auto
  from assms(1,2) Some have "r \<in> set (handleCommandRequest s request)" by simp
  then show ?thesis using ne by (rule in_handleCommandRequest)
qed

text \<open>
  C4. Whatever operation \<open>op\<close> is applied to the pending commands \<open>s\<close> (the
  orchestrator reporting a tool response, Approve, or Deny): if one of the states it
  produces holds a request \<open>r\<close> with status executing, and no request with that id was
  executing in \<open>s\<close>, then \<open>op\<close> is the Approve call for \<open>r\<close>'s id. Every request the
  orchestrator creates has status pending or blocked. Approve on an id whose request has
  status executed, or is no longer in the list, is a no-op: no state change, no command
  run, no message sent.
\<close>

theorem executing_only_via_approve:
  "(\<forall>s' r. s' \<in> set (states (applyOp executeCommand op s)) \<longrightarrow> r \<in> set s'
        \<longrightarrow> status r = Executing
        \<longrightarrow> \<not> (\<exists>q \<in> set s. req_id q = req_id r \<and> status q = Executing)
        \<longrightarrow> op = Approve (req_id r))
   \<and> (\<forall>notified now generatedId responseData request.
        fst (notifyCommandRequest notified now generatedId responseData) = Some request
        \<longrightarrow> status request = Pending \<or> status request = BlockedStatus)
   \<and> (\<forall>q. find (\<lambda>item. req_id item = rid) s = Some q \<longrightarrow> status q = Executed
        \<longrightarrow> approveCommandRequest executeCommand s rid = noOutcome)
   \<and> (find (\<lambda>item. req_id item = rid) s = None
        \<longrightarrow> approveCommandRequest executeCommand s rid = noOutcome)"
proof (intro conjI allI impI)
  fix s' r
  assume a: "s' \<in> set (states (applyOp executeCommand op s))" "r \<in> set s'"
            "status r = Executing"
     and fresh: "\<not> (\<exists>q \<in> set s. req_id q = req_id r \<and> status q = Executing)"
  from fresh a(3) have notin: "r \<notin> set s" by auto
  show "op = Approve (req_id r)"
  proof (cases op)
    case (OnCommandRequest notified now generatedId responseData)
    with a create_states have "r \<in> set s" by blast
    with notin show ?thesis by simp
  next
    case (Approve rid')
    with a have "req_id r = rid' \<or> r \<in> set s"
      using approve_states [of s' executeCommand s rid' r] by simp
    with notin Approve show ?thesis by simp
  next
    case (Deny rid')
    with a have "r \<in> set s"
      using deny_states [of s' s rid' r] by simp
    with notin show ?thesis by simp
  qed
next
  fix notified now generatedId responseData request
  assume "fst (notifyCommandRequest notified now generatedId responseData) = Some request"
  then show "status request = Pending \<or> status request = BlockedStatus"
    by (rule notify_status)
next
  fix q
  assume "find (\<lambda>item. req_id item = rid) s = Some q" "status q = Executed"
  then show "approveCommandRequest executeCommand s rid = noOutcome"
    by (simp add: approveCommandRequest_def)
next
  assume "find (\<lambda>item. req_id item = rid) s = None"
  then show "approveCommandRequest executeCommand s rid = noOutcome"
    by (simp add: approveCommandRequest_def)
qed

text \<open>
  On the list holding the pending \<open>docker stop web\<close> and an executed request: approving
  the first makes it executing (and this is the Approve of its id), approving the
  executed one is a no-op.
\<close>

theorem executing_only_via_approve_witness:
  "[stopRequest\<lparr>status := Executing\<rparr>, doneRequest]
      \<in> set (states (applyOp okExec (Approve ''cmd_2'') [stopRequest, doneRequest]))
   \<and> status (stopRequest\<lparr>status := Executing\<rparr>) = Executing
   \<and> \<not> (\<exists>q \<in> set [stopRequest, doneRequest].
           req_id q = req_id (stopRequest\<lparr>status := Executing\<rparr>) \<and> status q = Executing)
   \<and> Approve ''cmd_2'' = Approve (req_id (stopRequest\<lparr>status := Executing\<rparr>))
   \<and> find (\<lambda>item. req_id item = ''cmd_3'') [stopRequest, doneRequest] = Some doneRequest
   \<and> status doneRequest = Executed
   \<and> approveCommandRequest okExec [stopRequest, doneRequest] ''cmd_3'' = noOutcome"
proof -
  let ?s = "[stopRequest, doneRequest]"
  let ?r = "stopRequest\<lparr>status := Executing\<rparr>"
  have h1: "?s \<noteq> [] \<and> [?r, doneRequest] \<in> set (states (applyOp okExec (Approve ''cmd_2'') ?s))"
    by code_simp
  have h2: "?r \<in> set [?r, doneRequest]" by simp
  have h3: "status ?r = Executing" by simp
  have h4: "\<not> (\<exists>q \<in> set ?s. req_id q = req_id ?r \<and> status q = Executing)"
    by code_simp
  have h5: "find (\<lambda>item. req_id item = ''cmd_3'') ?s = Some doneRequest"
    by code_simp
  have h6: "status doneRequest = Executed"
    by code_simp
  note t = executing_only_via_approve [of okExec "Approve ''cmd_2''" ?s "''cmd_3''"]
  from t h1 h2 h3 h4 have c1: "Approve ''cmd_2'' = Approve (req_id ?r)"
    by blast
  from t h5 h6 have c2: "approveCommandRequest okExec ?s ''cmd_3'' = noOutcome"
    by blast
  from h1 h3 h4 c1 h5 h6 c2 show ?thesis
    by blast
qed

section \<open>The wrap-up shortcut of sendMessageWithVision (src/services/gemini.ts)\<close>

datatype Role = User | Assistant | System

record Message =
  msg_role :: Role
  content :: string

text \<open>
  The alternatives of the pattern in \<open>isConversationWrapMessage\<close>, in the order of the
  source. The dot of \<open>thanks. that\<close> is the wildcard.
\<close>

definition wrapPhrases :: "pchar list list" where
  "wrapPhrases =
     [lits ''all good'',
      lits (''that'' @ [CHR 0x27] @ ''s all''),
      lits ''that is all'',
      lits ''thanks'',
      lits ''thank you'',
      lits ''appreciate it'',
      lits ''no further'',
      lits (''no that'' @ [CHR 0x27] @ ''s it''),
      lits ''just checking'',
      lits ''just wanted to check'',
      lits ''all set'',
      lits (''we'' @ [CHR 0x27] @ ''re good''),
      lits ''done for now'',
      lits ''thanks, that'',
      lits ''thanks'' @ [AnyChar] @ lits '' that'',
      lits ''cheers'']"

definition isConversationWrapMessage :: "string \<Rightarrow> bool" where
  "isConversationWrapMessage message =
     (if message = [] then False
      else (let normalized = toLowerCase (trim message) in regexWords wrapPhrases normalized))"

definition lastUserMessageContent :: "Message list \<Rightarrow> string" where
  "lastUserMessageContent messages =
     (case find (\<lambda>m. msg_role m = User) (rev messages) of
        Some m \<Rightarrow> content m
      | None \<Rightarrow> [])"

text \<open>
  What a turn does, as far as the caller and the collaborators can observe: the chunks
  put on the returned stream, and the calls made to the reasoning service, to the
  tool-call scanner and to the host capabilities.
\<close>

datatype Effect = ReasoningServiceCall | ToolCallExtraction | HostCapabilityCall

record TurnOutcome =
  stream :: "string list"
  effects :: "Effect list"

definition notInitialized :: string where
  "notInitialized = ''Gemini not initialized. Please set API key in settings.''"

definition wrapAcknowledgement :: string where
  "wrapAcknowledgement = ''Yep, I still have it in view. Let me know if you need anything else!''"

text \<open>
  \<open>sendMessageWithVision\<close> up to the end of the wrap-up shortcut. \<open>currentModel\<close> is the
  module variable (\<open>None\<close> for \<open>null\<close>); \<open>restOfTurn\<close> is the remainder of the function
  body (screenshot analysis, system context, the reasoning-service call and the tool-call
  loop), which the shortcut never enters. \<open>Inl\<close> is the error thrown.
\<close>

definition sendMessageWithVision ::
  "(Message list \<Rightarrow> string list \<Rightarrow> string + TurnOutcome) \<Rightarrow> 'model option
    \<Rightarrow> Message list \<Rightarrow> string list \<Rightarrow> string + TurnOutcome" where
  "sendMessageWithVision restOfTurn currentModel messages screenshots =
     (if currentModel = None then Inl notInitialized
      else if isConversationWrapMessage (lastUserMessageContent messages)
      then Inr \<lparr>stream = [wrapAcknowledgement], effects = []\<rparr>
      else restOfTurn messages screenshots)"

text \<open>A remainder of the turn that calls the reasoning service once and streams its reply.\<close>

definition sampleRestOfTurn :: "Message list \<Rightarrow> string list \<Rightarrow> string + TurnOutcome" where
  "sampleRestOfTurn messages screenshots =
     Inr \<lparr>stream = [''You are welcome.''], effects = [ReasoningServiceCall, ToolCallExtraction]\<rparr>"

definition thanksConversation :: "Message list" where
  "thanksConversation =
     [\<lparr>msg_role = User, content = ''is the web container running?''\<rparr>,
      \<lparr>msg_role = Assistant, content = ''Yes, web is up.''\<rparr>,
      \<lparr>msg_role = User, content = ''Great, thanks!''\<rparr>]"

subsection \<open>Properties of the wrap-up shortcut\<close>

text \<open>
  C10, as stated, fails when the reasoning client has not been initialised: the guard
  on \<open>currentModel\<close> comes before the wrap-up check, so for a conversation whose last
  user message is "Great, thanks!" the call throws "Gemini not initialized. Please set
  API key in settings." instead of returning the acknowledgement stream.
\<close>

theorem wrap_up_uninitialised_counterexample:
  "isConversationWrapMessage (lastUserMessageContent thanksConversation)
   \<and> sendMessageWithVision sampleRestOfTurn (None :: unit option) thanksConversation []
       = Inl notInitialized
   \<and> sendMessageWithVision sampleRestOfTurn (None :: unit option) thanksConversation []
       \<noteq> Inr \<lparr>stream = [wrapAcknowledgement], effects = []\<rparr>"
  by code_simp

text \<open>
  C10, amended. When the reasoning client has been initialised and the most recent user
  message matches the wrap-up pattern, \<open>sendMessageWithVision\<close> returns a stream holding
  only the fixed acknowledgement and performs no reasoning-service call, no tool-call
  extraction and no host-capability invocation, whatever the rest of the turn would
  have done; when the client has not been initialised the call throws the
  not-initialised error, again with no such effect.
\<close>

theorem wrap_up_shortcut:
  assumes "isConversationWrapMessage (lastUserMessageContent messages)"
  shows "sendMessageWithVision restOfTurn (Some model) messages screenshots
           = Inr \<lparr>stream = [wrapAcknowledgement], effects = []\<rparr>
       \<and> sendMessageWithVision restOfTurn (None :: 'm option) messages screenshots
           = Inl notInitialized"
  using assms by (simp add: sendMessageWithVision_def)

theorem wrap_up_shortcut_witness:
  "isConversationWrapMessage (lastUserMessageContent thanksConversation)
   \<and> sampleRestOfTurn thanksConversation []
       \<noteq> Inr \<lparr>stream = [wrapAcknowledgement], effects = []\<rparr>
   \<and> sendMessageWithVision sampleRestOfTurn (Some ()) thanksConversation []
       = Inr \<lparr>stream = [wrapAcknowledgement], effects = []\<rparr>"
proof -
  have h: "isConversationWrapMessage (lastUserMessageContent thanksConversation)"
    by code_simp
  have d: "sampleRestOfTurn thanksConversation []
             \<noteq> Inr \<lparr>stream = [wrapAcknowledgement], effects = []\<rparr>"
    by (simp add: sampleRestOfTurn_def)
  from wrap_up_shortcut [OF h, of sampleRestOfTurn "()" "[]"] h d show ?thesis
    by blast
qed

section \<open>The completion check after a tool result (sendMessageWithVision)\<close>









subsection \<open>Properties of the completion check\<close>





section \<open>The capture-analysis cache (windowAnalysis service)\<close>

text \<open>
  The cache is a JavaScript \<open>Map\<close> from keys to entries: an association list with
  distinct keys, in insertion order, which is the order \<open>cache.entries()\<close> iterates in.
  Timestamps are readings of \<open>Date.now()\<close>, in milliseconds. The analysis result is
  opaque to the cache.
\<close>

record 'a CacheEntry =
  analysis :: 'a
  timestamp :: int

type_synonym 'a Cache = "(string \<times> 'a CacheEntry) list"

definition CACHE_TTL :: int where
  "CACHE_TTL = 5 * 60 * 1000"

definition MAX_CACHE_SIZE :: nat where
  "MAX_CACHE_SIZE = 50"

definition cacheDelete :: "string \<Rightarrow> 'a Cache \<Rightarrow> 'a Cache" where
  "cacheDelete key cache = filter (\<lambda>(k, entry). k \<noteq> key) cache"

text \<open>\<open>Map.prototype.set\<close>: an existing key keeps its place, a new key goes last.\<close>

definition cacheSet :: "string \<Rightarrow> 'a CacheEntry \<Rightarrow> 'a Cache \<Rightarrow> 'a Cache" where
  "cacheSet key entry cache =
     (if key \<in> fst ` set cache
      then map (\<lambda>(k, e). if k = key then (k, entry) else (k, e)) cache
      else cache @ [(key, entry)])"

definition getCacheKey :: "string \<Rightarrow> string \<Rightarrow> string \<Rightarrow> string" where
  "getCacheKey windowTitle processName imageHash =
     windowTitle @ ''|'' @ processName @ ''|'' @ take 16 imageHash"

definition cleanExpiredEntries :: "int \<Rightarrow> 'a Cache \<Rightarrow> 'a Cache" where
  "cleanExpiredEntries now cache =
     filter (\<lambda>(key, entry). \<not> (now - timestamp entry > CACHE_TTL)) cache"

text \<open>The search loop of \<open>evictIfNeeded\<close>, started with \<open>oldestKey = null\<close> and \<open>oldestTime = Date.now()\<close>.\<close>

fun oldestLoop :: "'a Cache \<Rightarrow> string option \<Rightarrow> int \<Rightarrow> string option" where
  "oldestLoop [] oldestKey oldestTime = oldestKey"
| "oldestLoop ((key, entry) # rest) oldestKey oldestTime =
     (if timestamp entry < oldestTime
      then oldestLoop rest (Some key) (timestamp entry)
      else oldestLoop rest oldestKey oldestTime)"

definition evictIfNeeded :: "int \<Rightarrow> 'a Cache \<Rightarrow> 'a Cache" where
  "evictIfNeeded now cache =
     (if length cache \<ge> MAX_CACHE_SIZE then
        (case oldestLoop cache None now of
           Some oldestKey \<Rightarrow> (if oldestKey \<noteq> [] then cacheDelete oldestKey cache else cache)
         | None \<Rightarrow> cache)
      else cache)"

text \<open>
  The readings of \<open>Date.now()\<close> during one call of \<open>analyzeWindowCapture\<close>, in program
  order: in \<open>cleanExpiredEntries\<close>, at the freshness test of the entry found, in
  \<open>evictIfNeeded\<close>, and when the new entry is stored.
\<close>

record Clock =
  t_clean :: int
  t_check :: int
  t_evict :: int
  t_store :: int

text \<open>
  \<open>performAnalysis\<close> is the call to the vision model: it returns the analysis, or throws
  (\<open>None\<close>), in which case \<open>analyzeWindowCapture\<close> returns \<open>null\<close>. The result is
  paired with the cache the call leaves behind.
\<close>

definition analyzeWindowCapture ::
  "(string \<Rightarrow> string option \<Rightarrow> string \<Rightarrow> string \<Rightarrow> 'a option) \<Rightarrow> Clock \<Rightarrow> 'a Cache
    \<Rightarrow> string \<Rightarrow> string option \<Rightarrow> string \<Rightarrow> string \<Rightarrow> string \<Rightarrow> 'a option \<times> 'a Cache" where
  "analyzeWindowCapture performAnalysis clock cache imageBase64 ocrText windowTitle processName imageHash =
     (let cleaned = cleanExpiredEntries (t_clean clock) cache;
          cacheKey = getCacheKey windowTitle processName imageHash;
          hit = (case map_of cleaned cacheKey of
                   Some cached \<Rightarrow>
                     (if t_check clock - timestamp cached < CACHE_TTL then Some (analysis cached) else None)
                 | None \<Rightarrow> None)
      in case hit of
           Some a \<Rightarrow> (Some a, cleaned)
         | None \<Rightarrow>
             (let evicted = evictIfNeeded (t_evict clock) cleaned in
              case performAnalysis imageBase64 ocrText windowTitle processName of
                None \<Rightarrow> (None, evicted)
              | Some a \<Rightarrow>
                  (Some a, cacheSet cacheKey \<lparr>analysis = a, timestamp = t_store clock\<rparr> evicted)))"

subsection \<open>Sample data\<close>

text \<open>
  Fifty entries for fifty different windows of one process, all stored at the same
  reading \<open>t\<close>; a vision model that answers every request with the analysis \<open>7\<close>; and the
  clock of a call during which \<open>Date.now()\<close> reads \<open>t\<close> throughout.
\<close>

definition fullCache :: "int \<Rightarrow> nat Cache" where
  "fullCache t =
     map (\<lambda>i. (getCacheKey (replicate (Suc i) (CHR ''w'')) ''chrome'' ''0123456789abcdef'',
               \<lparr>analysis = i, timestamp = t\<rparr>)) [0..<50]"

definition sampleAnalysis :: "string \<Rightarrow> string option \<Rightarrow> string \<Rightarrow> string \<Rightarrow> nat option" where
  "sampleAnalysis imageBase64 ocrText windowTitle processName = Some 7"

definition steadyClock :: "int \<Rightarrow> Clock" where
  "steadyClock t = \<lparr>t_clean = t, t_check = t, t_evict = t, t_store = t\<rparr>"

subsection \<open>Properties of the cache\<close>

lemma map_of_filter_Some:
  "distinct (map fst xs) \<Longrightarrow> map_of (filter P xs) k = Some v \<Longrightarrow> map_of xs k = Some v"
proof (induction xs)
  case Nil
  then show ?case by simp
next
  case (Cons x xs)
  obtain a b where x: "x = (a, b)" by (cases x)
  show ?case
  proof (cases "P x")
    case True
    with Cons x show ?thesis by (auto split: if_splits)
  next
    case False
    with Cons have m: "map_of xs k = Some v" by simp
    then have "k \<in> fst ` set xs" by (metis map_of_eq_None_iff option.distinct(1))
    with Cons.prems(1) x have "k \<noteq> a" by auto
    with m x show ?thesis by simp
  qed
qed

lemma distinct_cleanExpiredEntries:
  "distinct (map fst cache) \<Longrightarrow> distinct (map fst (cleanExpiredEntries now cache))"
  by (simp add: cleanExpiredEntries_def distinct_map_filter)

text \<open>
  An entry older than the TTL at the freshness test is never returned, whether or not
  the purge has removed it: the result is what \<open>performAnalysis\<close> gives.
\<close>

lemma expired_entry_is_a_miss:
  assumes "distinct (map fst cache)"
      and "map_of cache (getCacheKey windowTitle processName imageHash) = Some cached"
      and "t_check clock - timestamp cached > CACHE_TTL"
  shows "fst (analyzeWindowCapture performAnalysis clock cache
                imageBase64 ocrText windowTitle processName imageHash)
         = performAnalysis imageBase64 ocrText windowTitle processName"
proof -
  let ?key = "getCacheKey windowTitle processName imageHash"
  let ?cleaned = "cleanExpiredEntries (t_clean clock) cache"
  have "map_of ?cleaned ?key = None \<or> map_of ?cleaned ?key = Some cached"
  proof (cases "map_of ?cleaned ?key")
    case None
    then show ?thesis by simp
  next
    case (Some e)
    then have "map_of cache ?key = Some e"
      unfolding cleanExpiredEntries_def using assms(1) by (rule map_of_filter_Some [rotated])
    with assms(2) Some show ?thesis by simp
  qed
  then show ?thesis
    using assms(3)
    by (auto simp add: analyzeWindowCapture_def Let_def split: option.splits)
qed

text \<open>What the search loop returns: the first entry with the least timestamp, if that is below the start value.\<close>

lemma oldestLoop_result:
  "(oldestLoop cache oldestKey oldestTime = oldestKey
      \<and> (\<forall>(k, e) \<in> set cache. \<not> timestamp e < oldestTime))
   \<or> (\<exists>k e. oldestLoop cache oldestKey oldestTime = Some k \<and> (k, e) \<in> set cache
          \<and> timestamp e < oldestTime
          \<and> (\<forall>(k', e') \<in> set cache. timestamp e \<le> timestamp e'))"
proof (induction cache arbitrary: oldestKey oldestTime)
  case Nil
  then show ?case by simp
next
  case (Cons x rest)
  obtain key entry where x: "x = (key, entry)" by (cases x)
  show ?case
  proof (cases "timestamp entry < oldestTime")
    case True
    from Cons.IH [of "Some key" "timestamp entry"] show ?thesis
    proof
      assume "oldestLoop rest (Some key) (timestamp entry) = Some key
                \<and> (\<forall>(k, e) \<in> set rest. \<not> timestamp e < timestamp entry)"
      with True x have "oldestLoop (x # rest) oldestKey oldestTime = Some key
          \<and> (key, entry) \<in> set (x # rest) \<and> timestamp entry < oldestTime
          \<and> (\<forall>(k', e') \<in> set (x # rest). timestamp entry \<le> timestamp e')"
        by fastforce
      then show ?thesis by blast
    next
      assume "\<exists>k e. oldestLoop rest (Some key) (timestamp entry) = Some k \<and> (k, e) \<in> set rest
                \<and> timestamp e < timestamp entry
                \<and> (\<forall>(k', e') \<in> set rest. timestamp e \<le> timestamp e')"
      then obtain k e where
        "oldestLoop rest (Some key) (timestamp entry) = Some k" "(k, e) \<in> set rest"
        "timestamp e < timestamp entry" "\<forall>(k', e') \<in> set rest. timestamp e \<le> timestamp e'"
        by blast
      with True x have "oldestLoop (x # rest) oldestKey oldestTime = Some k
          \<and> (k, e) \<in> set (x # rest) \<and> timestamp e < oldestTime
          \<and> (\<forall>(k', e') \<in> set (x # rest). timestamp e \<le> timestamp e')"
        by fastforce
      then show ?thesis by blast
    qed
  next
    case False
    from Cons.IH [of oldestKey oldestTime] show ?thesis
    proof
      assume "oldestLoop rest oldestKey oldestTime = oldestKey
                \<and> (\<forall>(k, e) \<in> set rest. \<not> timestamp e < oldestTime)"
      with False x show ?thesis by fastforce
    next
      assume "\<exists>k e. oldestLoop rest oldestKey oldestTime = Some k \<and> (k, e) \<in> set rest
                \<and> timestamp e < oldestTime
                \<and> (\<forall>(k', e') \<in> set rest. timestamp e \<le> timestamp e')"
      then obtain k e where
        "oldestLoop rest oldestKey oldestTime = Some k" "(k, e) \<in> set rest"
        "timestamp e < oldestTime" "\<forall>(k', e') \<in> set rest. timestamp e \<le> timestamp e'"
        by blast
      with False x have "oldestLoop (x # rest) oldestKey oldestTime = Some k
          \<and> (k, e) \<in> set (x # rest) \<and> timestamp e < oldestTime
          \<and> (\<forall>(k', e') \<in> set (x # rest). timestamp e \<le> timestamp e')"
        by fastforce
      then show ?thesis by blast
    qed
  qed
qed

lemma length_cacheDelete:
  "distinct (map fst cache) \<Longrightarrow> (key, entry) \<in> set cache
   \<Longrightarrow> Suc (length (cacheDelete key cache)) = length cache"
proof (induction cache)
  case Nil
  then show ?case by simp
next
  case (Cons x cache)
  obtain a b where x: "x = (a, b)" by (cases x)
  show ?case
  proof (cases "a = key")
    case True
    with Cons.prems x have "key \<notin> fst ` set cache" by auto
    then have "\<forall>p \<in> set cache. fst p \<noteq> key" by auto
    then have "filter (\<lambda>(k, entry). k \<noteq> key) cache = cache"
      by (simp add: filter_id_conv case_prod_beta)
    with True x show ?thesis by (simp add: cacheDelete_def)
  next
    case False
    with Cons.prems x have "(key, entry) \<in> set cache" by auto
    with Cons.IH Cons.prems have "Suc (length (cacheDelete key cache)) = length cache" by simp
    with False x show ?thesis by (simp add: cacheDelete_def)
  qed
qed

text \<open>
  When the cache is at capacity and some entry was stored before the reading of the
  clock, \<open>evictIfNeeded\<close> removes exactly one entry, and it is one with the least
  timestamp.
\<close>

lemma evictIfNeeded_removes_oldest:
  assumes "length cache \<ge> MAX_CACHE_SIZE"
      and "distinct (map fst cache)"
      and "\<forall>(k, e) \<in> set cache. k \<noteq> []"
      and "\<exists>(k, e) \<in> set cache. timestamp e < now"
  shows "\<exists>k e. (k, e) \<in> set cache \<and> (\<forall>(k', e') \<in> set cache. timestamp e \<le> timestamp e')
           \<and> evictIfNeeded now cache = cacheDelete k cache
           \<and> Suc (length (evictIfNeeded now cache)) = length cache"
proof -
  from assms(4) have "\<not> (\<forall>(k, e) \<in> set cache. \<not> timestamp e < now)"
    by (simp add: case_prod_beta)
  with oldestLoop_result [of cache None now]
  have "\<exists>k e. oldestLoop cache None now = Some k \<and> (k, e) \<in> set cache
          \<and> timestamp e < now
          \<and> (\<forall>(k', e') \<in> set cache. timestamp e \<le> timestamp e')"
    by blast
  then obtain k e where ke: "oldestLoop cache None now = Some k" "(k, e) \<in> set cache"
      "\<forall>(k', e') \<in> set cache. timestamp e \<le> timestamp e'"
    by blast
  from ke(2) assms(3) have "k \<noteq> []" by (auto simp add: case_prod_beta)
  with ke(1) assms(1) have ev: "evictIfNeeded now cache = cacheDelete k cache"
    by (simp add: evictIfNeeded_def)
  from length_cacheDelete [OF assms(2) ke(2)] ev
  have "Suc (length (evictIfNeeded now cache)) = length cache" by simp
  with ke(2,3) ev show ?thesis by blast
qed

lemma length_evictIfNeeded_le: "length (evictIfNeeded now cache) \<le> length cache"
  by (simp add: evictIfNeeded_def cacheDelete_def split: option.splits)

lemma length_cacheSet_le: "length (cacheSet key entry cache) \<le> Suc (length cache)"
  by (simp add: cacheSet_def)

text \<open>
  Hence the bound of 50 entries is kept by a call during which every cached entry
  predates the reading of the clock in \<open>evictIfNeeded\<close>.
\<close>

lemma analyzeWindowCapture_keeps_bound:
  assumes "length cache \<le> MAX_CACHE_SIZE"
      and "distinct (map fst cache)"
      and "\<forall>(k, e) \<in> set cache. k \<noteq> [] \<and> timestamp e < t_evict clock"
  shows "length (snd (analyzeWindowCapture performAnalysis clock cache
                        imageBase64 ocrText windowTitle processName imageHash))
         \<le> MAX_CACHE_SIZE"
proof -
  let ?cleaned = "cleanExpiredEntries (t_clean clock) cache"
  have len: "length ?cleaned \<le> MAX_CACHE_SIZE"
    using assms(1) by (simp add: cleanExpiredEntries_def le_trans [OF length_filter_le])
  have dist: "distinct (map fst ?cleaned)"
    using assms(2) by (rule distinct_cleanExpiredEntries)
  have sub: "set ?cleaned \<subseteq> set cache"
    by (auto simp add: cleanExpiredEntries_def)
  have ev: "Suc (length (evictIfNeeded (t_evict clock) ?cleaned)) \<le> MAX_CACHE_SIZE"
  proof (cases "length ?cleaned \<ge> MAX_CACHE_SIZE")
    case True
    then have "?cleaned \<noteq> []" by (auto simp add: MAX_CACHE_SIZE_def)
    then obtain k e where "(k, e) \<in> set ?cleaned" by (cases ?cleaned) auto
    with sub assms(3) have ex: "\<exists>(k, e) \<in> set ?cleaned. timestamp e < t_evict clock"
      by fastforce
    from sub assms(3) have ne: "\<forall>(k, e) \<in> set ?cleaned. k \<noteq> []"
      by fastforce
    from evictIfNeeded_removes_oldest [OF True dist ne ex] len show ?thesis
      by auto
  next
    case False
    then show ?thesis by (simp add: evictIfNeeded_def)
  qed
  have "length (cacheSet k v (evictIfNeeded (t_evict clock) ?cleaned)) \<le> MAX_CACHE_SIZE" for k v
    using ev length_cacheSet_le [of k v "evictIfNeeded (t_evict clock) ?cleaned"] by linarith
  moreover have "length (evictIfNeeded (t_evict clock) ?cleaned) \<le> MAX_CACHE_SIZE"
    using ev by linarith
  ultimately show ?thesis
    using len
    by (auto simp add: analyzeWindowCapture_def Let_def split: option.splits)
qed

text \<open>
  C8. The lookup part of the claim holds (\<open>expired_entry_is_a_miss\<close>), and so does the
  bound as long as the cached entries predate the clock (\<open>analyzeWindowCapture_keeps_bound\<close>,
  \<open>evictIfNeeded_removes_oldest\<close>). But the search for the oldest entry starts from
  \<open>oldestTime = Date.now()\<close>, so an entry whose timestamp is not below the current
  reading is never chosen. With 50 entries stored at the reading 2000 and a call for a
  new window while \<open>Date.now()\<close> reads 1000 (the wall clock has been set back), nothing
  is evicted and the cache holds 51 entries after the insertion.
\<close>

theorem cache_exceeds_capacity:
  "length (fullCache 2000) = MAX_CACHE_SIZE
   \<and> distinct (map fst (fullCache 2000))
   \<and> evictIfNeeded 1000 (fullCache 2000) = fullCache 2000
   \<and> fst (analyzeWindowCapture sampleAnalysis (steadyClock 1000) (fullCache 2000)
            ''img'' None ''editor'' ''code'' ''ffff'') = Some 7
   \<and> length (snd (analyzeWindowCapture sampleAnalysis (steadyClock 1000) (fullCache 2000)
                    ''img'' None ''editor'' ''code'' ''ffff'')) = 51"
  by code_simp

section \<open>The window resolver (src/services/gemini.ts)\<close>

record WindowSelectionOption =
  title :: string
  displayName :: string
  processName :: string
  isActive :: bool

text \<open>The object \<open>{ title, displayName, processName }\<close> the resolver returns.\<close>

record WindowSelection =
  sel_title :: string
  sel_displayName :: string
  sel_processName :: string

text \<open>The entries of \<open>ORDINAL_WORDS\<close>, in the order \<open>Object.entries\<close> yields them.\<close>

definition ORDINAL_WORDS :: "(string \<times> nat) list" where
  "ORDINAL_WORDS =
     [(''first'', 1), (''second'', 2), (''third'', 3), (''fourth'', 4), (''fifth'', 5),
      (''sixth'', 6), (''seventh'', 7), (''eighth'', 8), (''ninth'', 9), (''tenth'', 10)]"

subsection \<open>extractRequestedIndex\<close>

text \<open>
  \<open>input.match(/\b(\d+)\b/)\<close>: the first run of digits that has a word boundary on
  both sides, if any. A position inside a run, or after a letter or an underscore, has
  no boundary before it; a run followed by a letter or an underscore has none after it.
\<close>

fun digitMatchFrom :: "bool \<Rightarrow> string \<Rightarrow> string option" where
  "digitMatchFrom prevWord [] = None"
| "digitMatchFrom prevWord (c # cs) =
     (if \<not> prevWord \<and> isDigit c \<and> boundary True (dropWhile isDigit (c # cs))
      then Some (takeWhile isDigit (c # cs))
      else digitMatchFrom (isWordChar c) cs)"

definition digitMatch :: "string \<Rightarrow> string option" where
  "digitMatch input = digitMatchFrom False input"

definition digitValue :: "char \<Rightarrow> nat" where
  "digitValue c = (case map_of (zip ''0123456789'' [0, 1, 2, 3, 4, 5, 6, 7, 8, 9]) c of
                     Some d \<Rightarrow> d | None \<Rightarrow> 0)"

text \<open>\<open>parseInt(digits, 10)\<close> on a non-empty string of decimal digits.\<close>

definition parseInt :: "string \<Rightarrow> nat" where
  "parseInt digits = foldl (\<lambda>n c. 10 * n + digitValue c) 0 digits"

definition ordinalLoop :: "string \<Rightarrow> nat \<Rightarrow> nat option" where
  "ordinalLoop lower totalCount =
     (case find (\<lambda>(word, v). str_includes lower word \<and> v \<ge> 1 \<and> v \<le> totalCount) ORDINAL_WORDS of
        Some (word, v) \<Rightarrow> Some (v - 1)
      | None \<Rightarrow> None)"

definition extractRequestedIndex :: "string \<Rightarrow> nat \<Rightarrow> nat option" where
  "extractRequestedIndex input totalCount =
     (case digitMatch input of
        Some digits \<Rightarrow>
          (let candidate = parseInt digits in
           if candidate \<ge> 1 \<and> candidate \<le> totalCount then Some (candidate - 1)
           else ordinalLoop (toLowerCase input) totalCount)
      | None \<Rightarrow> ordinalLoop (toLowerCase input) totalCount)"

subsection \<open>normalizeWindowText\<close>

definition removeQuotes :: "string \<Rightarrow> string" where
  "removeQuotes s = filter (\<lambda>c. c \<notin> set [CHR 0x22, CHR 0x27, CHR 0x60]) s"

definition stopWords :: "pchar list list" where
  "stopWords = map lits
     [''window'', ''app'', ''tab'', ''project'', ''file'', ''view'', ''editor'', ''panel'',
      ''screen'', ''pane'', ''the'', ''this'', ''that'', ''one'', ''please'', ''focus'',
      ''select'', ''choose'', ''open'', ''show'', ''display'', ''look'', ''at'', ''into'', ''on'']"

text \<open>
  \<open>s.replace(/\b(p1|...|pn)\b/g, " ")\<close>: from left to right, every match of the first
  alternative that matches at a position is replaced by a space, and the search goes on
  after the match.
\<close>

function replaceWordsFrom :: "pchar list list \<Rightarrow> bool \<Rightarrow> string \<Rightarrow> string" where
  "replaceWordsFrom alts prevWord [] = []"
| "replaceWordsFrom alts prevWord (c # cs) =
     (case find (\<lambda>p. p \<noteq> [] \<and> matchAltAt prevWord (c # cs) p) alts of
        Some p \<Rightarrow>
          CHR 0x20
            # replaceWordsFrom alts (isWordChar (last (take (length p) (c # cs))))
                (drop (length p) (c # cs))
      | None \<Rightarrow> c # replaceWordsFrom alts (isWordChar c) cs)"
  by pat_completeness auto
termination
proof (relation "measure (\<lambda>(alts, prevWord, s). length s)")
  show "wf (measure (\<lambda>(alts, prevWord, s). length s))" by simp
next
  fix alts :: "pchar list list" and prevWord :: bool and c :: char and cs :: string and p
  assume "find (\<lambda>p. p \<noteq> [] \<and> matchAltAt prevWord (c # cs) p) alts = Some p"
  then have "p \<noteq> []" by (auto simp add: find_Some_iff)
  then show "((alts, isWordChar (last (take (length p) (c # cs))), drop (length p) (c # cs)),
              (alts, prevWord, c # cs))
             \<in> measure (\<lambda>(alts, prevWord, s). length s)"
    by (cases p) simp_all
next
  fix alts :: "pchar list list" and prevWord :: bool and c :: char and cs :: string
  show "((alts, isWordChar c, cs), (alts, prevWord, c # cs))
        \<in> measure (\<lambda>(alts, prevWord, s). length s)"
    by simp
qed

text \<open>\<open>s.replace(/\s+/g, " ")\<close>: every run of white space becomes one space.\<close>

function collapseWhitespace :: "string \<Rightarrow> string" where
  "collapseWhitespace [] = []"
| "collapseWhitespace (c # cs) =
     (if isWhitespace c then CHR 0x20 # collapseWhitespace (dropWhile isWhitespace cs)
      else c # collapseWhitespace cs)"
  by pat_completeness auto
termination
  by (relation "measure length") (simp_all add: le_imp_less_Suc length_dropWhile_le)

definition normalizeWindowText :: "string \<Rightarrow> string" where
  "normalizeWindowText text =
     trim (collapseWhitespace (replaceWordsFrom stopWords False (removeQuotes (toLowerCase text))))"

text \<open>\<open>s.split(" ")\<close>.\<close>

fun splitSpace :: "string \<Rightarrow> string list" where
  "splitSpace [] = [[]]"
| "splitSpace (c # cs) =
     (if c = CHR 0x20 then [] # splitSpace cs
      else (case splitSpace cs of t # ts \<Rightarrow> (c # t) # ts | [] \<Rightarrow> [[c]]))"

subsection \<open>resolveWindowSelectionFromOptions\<close>

definition selection :: "string \<Rightarrow> WindowSelectionOption \<Rightarrow> WindowSelection" where
  "selection process option =
     \<lparr>sel_title = title option, sel_displayName = displayName option, sel_processName = process\<rparr>"

text \<open>The score of one option in the fuzzy pass.\<close>

definition fuzzyScore :: "string \<Rightarrow> string list \<Rightarrow> WindowSelectionOption \<Rightarrow> int" where
  "fuzzyScore normalizedRequested tokens option =
     (let normalizedTitle = normalizeWindowText (title option);
          normalizedDisplay = normalizeWindowText (displayName option);
          s1 = (if normalizedRequested \<noteq> []
                   \<and> (prefix normalizedRequested normalizedTitle
                      \<or> prefix normalizedRequested normalizedDisplay) then 60
                else if normalizedRequested \<noteq> []
                   \<and> (str_includes normalizedTitle normalizedRequested
                      \<or> str_includes normalizedDisplay normalizedRequested) then 45
                else 0);
          matchedTokens = filter (\<lambda>token. length token > 1
                                    \<and> (str_includes normalizedTitle token
                                       \<or> str_includes normalizedDisplay token)) tokens;
          s2 = (if length tokens > 0 \<and> matchedTokens \<noteq> []
                then int (length matchedTokens) * 10
                     + (if length matchedTokens = length tokens then 10 else 0)
                else 0);
          s3 = (if isActive option then 5 else 0);
          s4 = (if normalizedRequested \<noteq> [] \<and> length normalizedTitle > 0
                then max 0 (8 - \<bar>int (length normalizedTitle) - int (length normalizedRequested)\<bar>)
                else 0)
      in s1 + s2 + s3 + s4)"

text \<open>The loop of the fuzzy pass, carrying \<open>bestOption\<close> and \<open>bestScore\<close>.\<close>

fun fuzzyLoop ::
  "string \<Rightarrow> string list \<Rightarrow> WindowSelectionOption list
    \<Rightarrow> WindowSelectionOption option \<times> int \<Rightarrow> WindowSelectionOption option \<times> int" where
  "fuzzyLoop normalizedRequested tokens [] best = best"
| "fuzzyLoop normalizedRequested tokens (option # rest) (bestOption, bestScore) =
     (let score = fuzzyScore normalizedRequested tokens option in
      if score > bestScore
      then fuzzyLoop normalizedRequested tokens rest (Some option, score)
      else fuzzyLoop normalizedRequested tokens rest (bestOption, bestScore))"

text \<open>
  The stages after the explicit index: exact title, exact display name, normalised
  match, fuzzy score.
\<close>

definition matchByText ::
  "string \<Rightarrow> WindowSelectionOption list \<Rightarrow> string \<Rightarrow> WindowSelection option" where
  "matchByText process options cleaned =
     (let normalizedRequested = normalizeWindowText cleaned;
          tokens = filter (\<lambda>t. t \<noteq> []) (splitSpace normalizedRequested)
      in case find (\<lambda>option. toLowerCase (title option) = toLowerCase cleaned) options of
           Some directTitleMatch \<Rightarrow> Some (selection process directTitleMatch)
         | None \<Rightarrow>
        (case find (\<lambda>option. toLowerCase (displayName option) = toLowerCase cleaned) options of
           Some directDisplayMatch \<Rightarrow> Some (selection process directDisplayMatch)
         | None \<Rightarrow>
        (case find (\<lambda>option. normalizeWindowText (title option) = normalizedRequested
                             \<or> normalizeWindowText (displayName option) = normalizedRequested)
                   options of
           Some normalizedMatches \<Rightarrow> Some (selection process normalizedMatches)
         | None \<Rightarrow>
        (case fuzzyLoop normalizedRequested tokens options (None, 0) of
           (Some bestOption, bestScore) \<Rightarrow>
             (if bestScore \<ge> 15 then Some (selection process bestOption) else None)
         | (None, bestScore) \<Rightarrow> None))))"

definition resolveWindowSelectionFromOptions ::
  "string \<Rightarrow> WindowSelectionOption list \<Rightarrow> string \<Rightarrow> WindowSelection option" where
  "resolveWindowSelectionFromOptions process options requested =
     (if requested = [] then None
      else
        (let cleaned = trim (removeQuotes requested) in
         if cleaned = [] then None
         else
           (case extractRequestedIndex cleaned (length options) of
              Some indexFromWords \<Rightarrow>
                (if indexFromWords < length options
                 then Some (selection process (options ! indexFromWords))
                 else matchByText process options cleaned)
            | None \<Rightarrow> matchByText process options cleaned)))"

subsection \<open>Sample data\<close>

text \<open>Two windows enumerated for the process "chrome"; the first one is titled "Second thoughts".\<close>

definition chromeWindows :: "WindowSelectionOption list" where
  "chromeWindows =
     [\<lparr>title = ''Second thoughts - Google Chrome'', displayName = ''Second thoughts'',
       processName = ''chrome'', isActive = True\<rparr>,
      \<lparr>title = ''Inbox - Google Chrome'', displayName = ''Inbox'',
       processName = ''chrome'', isActive = False\<rparr>]"

subsection \<open>Properties of the resolver\<close>

lemma ordinalLoop_in_range:
  assumes "ordinalLoop lower n = Some i"
  shows "i < n"
proof -
  from assms obtain word v where
    f: "find (\<lambda>(word, v). str_includes lower word \<and> v \<ge> 1 \<and> v \<le> n) ORDINAL_WORDS
          = Some (word, v)" and i: "i = v - 1"
    by (auto simp add: ordinalLoop_def split: option.splits prod.splits)
  from f have "v \<ge> 1 \<and> v \<le> n"
    by (auto simp add: find_Some_iff)
  with i show ?thesis by arith
qed

lemma extractRequestedIndex_in_range:
  assumes "extractRequestedIndex input n = Some i"
  shows "i < n"
proof (cases "digitMatch input")
  case None
  with assms have "ordinalLoop (toLowerCase input) n = Some i"
    by (simp add: extractRequestedIndex_def)
  then show ?thesis by (rule ordinalLoop_in_range)
next
  case (Some digits)
  show ?thesis
  proof (cases "parseInt digits \<ge> 1 \<and> parseInt digits \<le> n")
    case True
    with assms Some have "i = parseInt digits - 1"
      by (simp add: extractRequestedIndex_def Let_def)
    with True show ?thesis by arith
  next
    case False
    with assms Some have "ordinalLoop (toLowerCase input) n = Some i"
      by (auto simp add: extractRequestedIndex_def Let_def)
    then show ?thesis by (rule ordinalLoop_in_range)
  qed
qed

lemma ordinalLoop_empty: "ordinalLoop [] n = None"
  by (simp add: ordinalLoop_def ORDINAL_WORDS_def)

lemma extractRequestedIndex_empty: "extractRequestedIndex [] n = None"
  by (simp add: extractRequestedIndex_def digitMatch_def toLowerCase_def ordinalLoop_empty)

lemma find_least:
  "sorted_wrt (\<lambda>a b. snd a < snd b) xs \<Longrightarrow> x \<in> set xs \<Longrightarrow> P x
   \<Longrightarrow> \<forall>y \<in> set xs. snd y < (snd x :: nat) \<longrightarrow> \<not> P y
   \<Longrightarrow> find P xs = Some x"
proof (induction xs)
  case Nil
  then show ?case by simp
next
  case (Cons y ys)
  show ?case
  proof (cases "x = y")
    case True
    with Cons.prems(3) show ?thesis by simp
  next
    case False
    with Cons.prems(2) have in_ys: "x \<in> set ys" by simp
    with Cons.prems(1) have "snd y < snd x" by auto
    with Cons.prems(4) have "\<not> P y" by simp
    moreover from Cons.prems(1) have "sorted_wrt (\<lambda>a b. snd a < snd b) ys" by simp
    moreover from Cons.prems(4) have "\<forall>z \<in> set ys. snd z < snd x \<longrightarrow> \<not> P z" by simp
    ultimately show ?thesis
      using Cons.IH in_ys Cons.prems(3) by simp
  qed
qed

lemma ORDINAL_WORDS_sorted: "sorted_wrt (\<lambda>a b. snd a < snd b) ORDINAL_WORDS"
  by (simp add: ORDINAL_WORDS_def)

lemma ORDINAL_WORDS_positive: "(word, k) \<in> set ORDINAL_WORDS \<Longrightarrow> 1 \<le> k"
  by (auto simp add: ORDINAL_WORDS_def)

lemma ordinalLoop_least:
  assumes "(word, k) \<in> set ORDINAL_WORDS" and "k \<le> n"
      and "str_includes lower word"
      and "\<forall>(w, j) \<in> set ORDINAL_WORDS. j < k \<longrightarrow> \<not> str_includes lower w"
  shows "ordinalLoop lower n = Some (k - 1)"
proof -
  let ?P = "\<lambda>(word, v). str_includes lower word \<and> v \<ge> 1 \<and> v \<le> n"
  from assms(1) have "1 \<le> k" by (rule ORDINAL_WORDS_positive)
  with assms(2,3) have p: "?P (word, k)" by simp
  from assms(4) have least: "\<forall>y \<in> set ORDINAL_WORDS. snd y < snd (word, k) \<longrightarrow> \<not> ?P y"
    by (auto simp add: case_prod_beta)
  from find_least [OF ORDINAL_WORDS_sorted assms(1) p least]
  show ?thesis by (simp add: ordinalLoop_def)
qed

lemma resolve_by_index:
  assumes "extractRequestedIndex (trim (removeQuotes requested)) (length options) = Some i"
  shows "resolveWindowSelectionFromOptions process options requested
         = Some (selection process (options ! i))"
proof -
  from assms have lt: "i < length options" by (rule extractRequestedIndex_in_range)
  from assms have ne: "trim (removeQuotes requested) \<noteq> []"
    using extractRequestedIndex_empty by fastforce
  then have "requested \<noteq> []"
    by (auto simp add: trim_def removeQuotes_def)
  with assms lt ne show ?thesis
    by (simp add: resolveWindowSelectionFromOptions_def Let_def)
qed

text \<open>
  C9, as stated, fails for a request that names more than one position: with the two
  windows of \<open>chromeWindows\<close>, the request "not the first one, the second one" contains
  the ordinal word for 2, which is in range, yet the resolver returns the window at
  index 0, because the ordinal words are tried in the order first, second, ...
\<close>

theorem ordinal_word_not_selected_counterexample:
  "str_includes (toLowerCase ''not the first one, the second one'') ''second''
   \<and> (2 :: nat) \<le> length chromeWindows
   \<and> resolveWindowSelectionFromOptions ''chrome'' chromeWindows
        ''not the first one, the second one''
       = Some (selection ''chrome'' (chromeWindows ! 0))
   \<and> resolveWindowSelectionFromOptions ''chrome'' chromeWindows
        ''not the first one, the second one''
       \<noteq> Some (selection ''chrome'' (chromeWindows ! (2 - 1)))"
  by code_simp

text \<open>
  C9, amended. The explicit index is resolved before any exact, normalised or fuzzy
  matching: whenever \<open>extractRequestedIndex\<close> finds an index \<open>i\<close> in the cleaned request,
  \<open>i\<close> is in range and the resolver returns the candidate at \<open>i\<close>. The index found is
  \<open>d - 1\<close> when the first stand-alone number \<open>d\<close> of the request lies in \<open>1..n\<close>; and
  when there is no such number, or it is out of range, it is \<open>k - 1\<close> for the least
  \<open>k \<le> n\<close> whose ordinal word ("first" ... "tenth") occurs in the lower-cased request.
\<close>

theorem explicit_index_resolved_first:
  "(extractRequestedIndex (trim (removeQuotes requested)) (length options) = Some i
      \<longrightarrow> i < length options
          \<and> resolveWindowSelectionFromOptions process options requested
              = Some (selection process (options ! i)))
   \<and> (digitMatch input = Some digits \<and> 1 \<le> parseInt digits \<and> parseInt digits \<le> n
      \<longrightarrow> extractRequestedIndex input n = Some (parseInt digits - 1))
   \<and> ((digitMatch input = None
        \<or> (\<exists>ds. digitMatch input = Some ds \<and> \<not> (1 \<le> parseInt ds \<and> parseInt ds \<le> n)))
       \<and> (word, k) \<in> set ORDINAL_WORDS \<and> k \<le> n
       \<and> str_includes (toLowerCase input) word
       \<and> (\<forall>(w, j) \<in> set ORDINAL_WORDS. j < k \<longrightarrow> \<not> str_includes (toLowerCase input) w)
      \<longrightarrow> extractRequestedIndex input n = Some (k - 1))"
proof (intro conjI impI)
  assume a: "extractRequestedIndex (trim (removeQuotes requested)) (length options) = Some i"
  then show "i < length options" by (rule extractRequestedIndex_in_range)
  from a show "resolveWindowSelectionFromOptions process options requested
                 = Some (selection process (options ! i))"
    by (rule resolve_by_index)
next
  assume "digitMatch input = Some digits \<and> 1 \<le> parseInt digits \<and> parseInt digits \<le> n"
  then show "extractRequestedIndex input n = Some (parseInt digits - 1)"
    by (simp add: extractRequestedIndex_def Let_def)
next
  assume b: "(digitMatch input = None
        \<or> (\<exists>ds. digitMatch input = Some ds \<and> \<not> (1 \<le> parseInt ds \<and> parseInt ds \<le> n)))
       \<and> (word, k) \<in> set ORDINAL_WORDS \<and> k \<le> n
       \<and> str_includes (toLowerCase input) word
       \<and> (\<forall>(w, j) \<in> set ORDINAL_WORDS. j < k \<longrightarrow> \<not> str_includes (toLowerCase input) w)"
  then have "ordinalLoop (toLowerCase input) n = Some (k - 1)"
    using ordinalLoop_least [of word k n "toLowerCase input"] by blast
  moreover from b have "extractRequestedIndex input n = ordinalLoop (toLowerCase input) n"
    by (auto simp add: extractRequestedIndex_def Let_def)
  ultimately show "extractRequestedIndex input n = Some (k - 1)" by simp
qed

text \<open>
  Two windows enumerated for "chrome": the request "the second one" resolves to index 1
  through the ordinal word, although matching by text alone would have chosen the window
  titled "Second thoughts"; and "window 1" resolves to index 0 through the number.
\<close>

theorem explicit_index_resolved_first_witness:
  "digitMatch ''the second one'' = None
   \<and> (''second'', 2) \<in> set ORDINAL_WORDS \<and> 2 \<le> length chromeWindows
   \<and> str_includes (toLowerCase ''the second one'') ''second''
   \<and> \<not> str_includes (toLowerCase ''the second one'') ''first''
   \<and> trim (removeQuotes ''the second one'') = ''the second one''
   \<and> extractRequestedIndex ''the second one'' (length chromeWindows) = Some (2 - 1)
   \<and> resolveWindowSelectionFromOptions ''chrome'' chromeWindows ''the second one''
       = Some (selection ''chrome'' (chromeWindows ! 1))
   \<and> matchByText ''chrome'' chromeWindows ''the second one''
       = Some (selection ''chrome'' (chromeWindows ! 0))
   \<and> digitMatch ''window 1'' = Some ''1'' \<and> parseInt ''1'' = 1
   \<and> extractRequestedIndex ''window 1'' (length chromeWindows) = Some (1 - 1)"
proof -
  have len: "length chromeWindows = 2" by (simp add: chromeWindows_def)
  have h1: "digitMatch ''the second one'' = None" by code_simp
  have h2: "(''second'', 2) \<in> set ORDINAL_WORDS" by (simp add: ORDINAL_WORDS_def)
  have h3: "str_includes (toLowerCase ''the second one'') ''second''" by code_simp
  have h4: "\<not> str_includes (toLowerCase ''the second one'') ''first''" by code_simp
  have h5: "\<forall>(w, j) \<in> set ORDINAL_WORDS. j < 2 \<longrightarrow> \<not> str_includes (toLowerCase ''the second one'') w"
    using h4 by (simp add: ORDINAL_WORDS_def)
  have h6: "trim (removeQuotes ''the second one'') = ''the second one''" by code_simp
  have h7: "matchByText ''chrome'' chromeWindows ''the second one''
              = Some (selection ''chrome'' (chromeWindows ! 0))" by code_simp
  have h8: "digitMatch ''window 1'' = Some ''1'' \<and> parseInt ''1'' = 1" by code_simp
  note t1 = explicit_index_resolved_first
              [of "''the second one''" chromeWindows 1 "''chrome''" "''the second one''"
                  "''1''" 2 "''second''" 2]
  from t1 h1 h2 h3 h5 have c1: "extractRequestedIndex ''the second one'' 2 = Some (2 - 1)"
    by blast
  then have c1': "extractRequestedIndex (trim (removeQuotes ''the second one'')) (length chromeWindows) = Some 1"
    by (simp add: h6 len)
  from t1 c1' have c2: "resolveWindowSelectionFromOptions ''chrome'' chromeWindows ''the second one''
       = Some (selection ''chrome'' (chromeWindows ! 1))"
    by blast
  note t2 = explicit_index_resolved_first
              [of "''the second one''" chromeWindows 1 "''chrome''" "''window 1''"
                  "''1''" 2 "''second''" 2]
  from t2 h8 have c3: "extractRequestedIndex ''window 1'' 2 = Some (1 - 1)"
    by simp
  from h1 h2 h3 h4 h6 h7 h8 c1 c2 c3 len show ?thesis
    by simp
qed

section \<open>The tool-call scanner (sendMessageWithVision, src/services/gemini.ts)\<close>





subsection \<open>addFunctionCall\<close>


definition callArgs :: "jsval \<Rightarrow> jsval" where
  "callArgs call =
     (if truthy (js_get call ''args'') \<and> typeof (js_get call ''args'') = TObject
      then js_get call ''args''
      else if truthy (js_get call ''arguments'') \<and> typeof (js_get call ''arguments'') = TObject
      then js_get call ''arguments''
      else JObj [])"



subsection \<open>scanForFunctionCalls\<close>





















subsection \<open>Sample data\<close>




subsection \<open>Properties of the scanner\<close>



















section \<open>Heuristic augmentation of the tool calls (sendMessageWithVision)\<close>











subsection \<open>The tests on the collected calls\<close>







subsection \<open>The injections\<close>











subsection \<open>Sample data\<close>



subsection \<open>The injected calls are read-only and new\<close>


























end
